theory Spec2Isabelle
  imports Main "HOL-Library.Word" "HOL-Library.AList"
begin

unbundle bit_operations_syntax

section \<open>Value types and external collaborators\<close>

text \<open>
  The SDK builds on value types and helpers that live outside the two modelled modules
  (\<^verbatim>\<open>AssetOutPoint.ts\<close> and \<^verbatim>\<open>AssetComposeTransaction.ts\<close>): the fixed-width hashes
  \<^verbatim>\<open>H160\<close>/\<^verbatim>\<open>H256\<close>, the unsigned integer \<^verbatim>\<open>U64\<close>, \<^verbatim>\<open>PlatformAddress\<close>, the Blake
  hash functions, the RLP encoder and the signature tag codec.  The value types are
  modelled by the data the modules read from them (the \<^verbatim>\<open>value\<close> string of a hash, the
  number held by a \<^verbatim>\<open>U64\<close>); every external function is a field of the record
  \<open>prims\<close>, so that each theorem holds for whatever these functions compute, and a
  theorem that needs a contract of one of them states it as a hypothesis.
\<close>

type_synonym Buffer = "8 word list"

datatype H160 = H160 (h160_value: string)

datatype H256 = H256 (h256_value: string)

type_synonym U64 = nat

datatype PlatformAddress = PlatformAddress (address_value: string)

text \<open>
  Errors.  The modules throw plain \<^verbatim>\<open>Error\<close> objects that differ in their message; the
  constructors are named after the error taxonomy of the specification:
  \<^item> \<open>MissingIndex\<close>: \<^verbatim>\<open>Error(`Unexpected value of the index: ...`)\<close>;
  \<^item> \<open>InvalidSignatureTag\<close>: \<^verbatim>\<open>Error(`Unexpected value of the tag input/output: ...`)\<close>;
  \<^item> \<open>UnsupportedOperation\<close>: \<^verbatim>\<open>Error("not implemented")\<close>;
  \<^item> \<open>UnexpectedInput i\<close>: \<^verbatim>\<open>Error(`Expected an array of either AssetTransferInput or
    Asset but found ... at i`)\<close>;
  \<^item> \<open>TypeError\<close>: the runtime's error for a method call on \<^verbatim>\<open>undefined\<close>;
  \<^item> \<open>InvalidFieldValue\<close>: raised by an external constructor or parser.
\<close>

datatype error =
    MissingIndex
  | InvalidSignatureTag
  | UnsupportedOperation
  | UnexpectedInput nat
  | TypeError
  | InvalidFieldValue

definition bind_result :: "error + 'a \<Rightarrow> ('a \<Rightarrow> error + 'b) \<Rightarrow> error + 'b" where
  "bind_result m f = (case m of Inl e \<Rightarrow> Inl e | Inr x \<Rightarrow> f x)"

text \<open>\<^verbatim>\<open>xs.map(f)\<close> where \<open>f\<close> may throw: the first failure aborts the map.\<close>

fun map_result :: "('a \<Rightarrow> error + 'b) \<Rightarrow> 'a list \<Rightarrow> error + 'b list" where
  "map_result f [] = Inr []"
| "map_result f (x # xs) =
     bind_result (f x) (\<lambda>y. bind_result (map_result f xs) (\<lambda>ys. Inr (y # ys)))"

text \<open>What \<^verbatim>\<open>toEncodeObject\<close> returns: numbers, strings, buffers and nested arrays.\<close>

datatype EncodeObject =
    ENumber int
  | EString string
  | EBuffer Buffer
  | EList "EncodeObject list"

text \<open>JSON values of the classes whose JSON interfaces are declared elsewhere.\<close>

datatype JSON =
    JNull
  | JNumber int
  | JString string
  | JArray "JSON list"
  | JObject "(string \<times> JSON) list"

text \<open>The first argument of \<^verbatim>\<open>blake256WithKey\<close> is a buffer or a hex string.\<close>

datatype BlakeData = DataBuffer Buffer | DataString string

text \<open>
  \<^verbatim>\<open>SignatureTag = { input: "all" | "single"; output: "all" | number[] }\<close>.  The
  constructors \<open>InputOther\<close> and \<open>OutputOther\<close> stand for the values an untyped caller
  can pass, which reach the final \<^verbatim>\<open>else\<close> branches.
\<close>

datatype TagInput = InputAll | InputSingle | InputOther

datatype TagOutput = OutputAll | OutputArray "int list" | OutputOther

datatype SignatureTag = SignatureTag (tag_input: TagInput) (tag_output: TagOutput)

section \<open>AssetOutPoint\<close>

record AssetOutPointJSON =
  json_transactionHash :: string
  json_index :: int
  json_assetType :: string
  json_amount :: string

text \<open>The optional fields \<^verbatim>\<open>lockScriptHash?\<close> and \<^verbatim>\<open>parameters?\<close> are \<open>None\<close> when
  \<^verbatim>\<open>undefined\<close>.\<close>

record AssetOutPoint =
  transactionHash :: H256
  index :: int
  assetType :: H256
  amount :: U64
  lockScriptHash :: "H160 option"
  parameters :: "Buffer list option"

text \<open>
  Modelled from the spec: \<^verbatim>\<open>AssetTransferInput\<close> (its class is not among the sources) is
  \<^verbatim>\<open>{prevOut: AssetOutPoint, lockScript: bytes, unlockScript: bytes}\<close>.
\<close>

record AssetTransferInput =
  prevOut :: AssetOutPoint
  lockScript :: Buffer
  unlockScript :: Buffer

text \<open>
  Modelled from the spec: \<^verbatim>\<open>AssetMintOutput\<close> (its class is not among the sources) is
  \<^verbatim>\<open>{lockScriptHash: H160, parameters: sequence-of-bytes, amount: U64 | null}\<close>; these are
  the three fields the compose transaction reads.  \<^verbatim>\<open>null\<close> is \<open>None\<close>.
\<close>

record AssetMintOutput =
  mint_lockScriptHash :: H160
  mint_parameters :: "Buffer list"
  mint_amount :: "U64 option"

text \<open>
  Modelled from the spec: \<^verbatim>\<open>Asset\<close> (its class is not among the sources) is the record
  of the arguments its constructor receives in \<^verbatim>\<open>getComposedAsset\<close>.
\<close>

record Asset =
  asset_assetType :: H256
  asset_lockScriptHash :: H160
  asset_parameters :: "Buffer list"
  asset_amount :: U64
  asset_transactionHash :: H256
  asset_transactionOutputIndex :: int

record PoolEntry =
  pool_assetType :: H256
  pool_amount :: U64

text \<open>
  Modelled from the spec: \<^verbatim>\<open>AssetScheme\<close> (its class is not among the sources) is the
  record of the arguments its constructor receives in \<^verbatim>\<open>getAssetScheme\<close>.
\<close>

record AssetScheme =
  scheme_networkId :: string
  scheme_shardId :: int
  scheme_metadata :: string
  scheme_amount :: U64
  scheme_approver :: "PlatformAddress option"
  scheme_administrator :: "PlatformAddress option"
  scheme_pool :: "PoolEntry list"

text \<open>
  The external functions.  A function that can throw returns \<open>error + 'a\<close>.
  \<^item> \<open>H256_new s\<close> is \<^verbatim>\<open>new H256(s)\<close> (and \<^verbatim>\<open>H256.ensure(s)\<close> on a string);
    \<open>H160_new\<close> likewise;
  \<^item> \<open>U64_plus a b\<close> is \<^verbatim>\<open>U64.plus(a, b)\<close>, where \<open>a\<close> is \<open>None\<close> when the
    accumulator has no entry yet (\<^verbatim>\<open>undefined\<close>);
  \<^item> \<open>U64_ensure_string s\<close> is \<^verbatim>\<open>U64.ensure(s)\<close> on a string and \<open>U64_toString16 a\<close>
    is \<^verbatim>\<open>a.toString(16)\<close>;
  \<^item> \<open>PlatformAddress_fromString s\<close> is \<^verbatim>\<open>PlatformAddress.ensure(s)\<close> on a string.
\<close>

record prims =
  blake128 :: "Buffer \<Rightarrow> string"
  blake256 :: "Buffer \<Rightarrow> string"
  blake256WithKey :: "BlakeData \<Rightarrow> Buffer \<Rightarrow> string"
  encodeSignatureTag :: "SignatureTag \<Rightarrow> Buffer"
  RLP_encode :: "EncodeObject \<Rightarrow> Buffer"
  H160_new :: "string \<Rightarrow> error + H160"
  H256_new :: "string \<Rightarrow> error + H256"
  H160_toEncodeObject :: "H160 \<Rightarrow> EncodeObject"
  U64_toEncodeObject :: "U64 \<Rightarrow> EncodeObject"
  U64_plus :: "U64 option \<Rightarrow> U64 \<Rightarrow> error + U64"
  U64_ensure_string :: "string \<Rightarrow> error + U64"
  U64_toString16 :: "U64 \<Rightarrow> string"
  U64_MAX_VALUE :: U64
  PlatformAddress_toString :: "PlatformAddress \<Rightarrow> string"
  PlatformAddress_fromString :: "string \<Rightarrow> error + PlatformAddress"
  AssetTransferInput_toEncodeObject :: "AssetTransferInput \<Rightarrow> EncodeObject"
  AssetTransferInput_toJSON :: "AssetTransferInput \<Rightarrow> JSON"
  AssetTransferInput_fromJSON :: "JSON \<Rightarrow> error + AssetTransferInput"
  AssetMintOutput_toJSON :: "AssetMintOutput \<Rightarrow> JSON"
  AssetMintOutput_fromJSON :: "JSON \<Rightarrow> error + AssetMintOutput"
  Asset_createTransferInput :: "Asset \<Rightarrow> AssetTransferInput"

text \<open>
  \<^verbatim>\<open>AssetOutPoint.fromJSON\<close>: the constructor receives the four fields of the JSON object
  only, so \<^verbatim>\<open>lockScriptHash\<close> and \<^verbatim>\<open>parameters\<close> of the result are \<^verbatim>\<open>undefined\<close>.  The
  arguments are evaluated in the order they are written.
\<close>

definition AssetOutPoint_fromJSON :: "prims \<Rightarrow> AssetOutPointJSON \<Rightarrow> error + AssetOutPoint" where
  "AssetOutPoint_fromJSON P data =
     bind_result (H256_new P (json_transactionHash data)) (\<lambda>th.
     bind_result (H256_new P (json_assetType data)) (\<lambda>ty.
     bind_result (U64_ensure_string P (json_amount data)) (\<lambda>am.
       Inr \<lparr> transactionHash = th, index = json_index data, assetType = ty, amount = am,
             lockScriptHash = None, parameters = None \<rparr>)))"

definition AssetOutPoint_toJSON :: "prims \<Rightarrow> AssetOutPoint \<Rightarrow> AssetOutPointJSON" where
  "AssetOutPoint_toJSON P this =
     \<lparr> json_transactionHash = h256_value (transactionHash this),
       json_index = index this,
       json_assetType = h256_value (assetType this),
       json_amount = ''0x'' @ U64_toString16 P (amount this) \<rparr>"

section \<open>AssetComposeTransaction\<close>

text \<open>The fields of the class.  \<^verbatim>\<open>NetworkId\<close> is a string, and the shard id, a number, is
  an integer of any size.\<close>

record AssetComposeTransaction =
  networkId :: string
  shardId :: int
  metadata :: string
  approver :: "PlatformAddress option"
  administrator :: "PlatformAddress option"
  inputs :: "AssetTransferInput list"
  "output" :: AssetMintOutput

record AssetComposeTransactionData =
  data_networkId :: string
  data_shardId :: int
  data_metadata :: string
  data_inputs :: "JSON list"
  data_output :: JSON
  data_approver :: "string option"
  data_administrator :: "string option"

record AssetComposeTransactionJSON =
  json_type :: string
  json_data :: AssetComposeTransactionData

text \<open>
  The constructor.  \<^verbatim>\<open>PlatformAddress.ensure\<close> receives a \<^verbatim>\<open>PlatformAddress\<close> here and
  \<^verbatim>\<open>new AssetMintOutput(output)\<close> an \<^verbatim>\<open>AssetMintOutput\<close>.  Modelled from the spec:
  the entities are immutable value objects, so \<^verbatim>\<open>ensure\<close> on an instance and the copy
  constructor return the value they are given.
\<close>

definition new_AssetComposeTransaction ::
  "string \<Rightarrow> int \<Rightarrow> string \<Rightarrow> PlatformAddress option \<Rightarrow> PlatformAddress option \<Rightarrow>
   AssetTransferInput list \<Rightarrow> AssetMintOutput \<Rightarrow> AssetComposeTransaction" where
  "new_AssetComposeTransaction networkId' shardId' metadata' approver' administrator' inputs' output' =
     \<lparr> networkId = networkId', shardId = shardId', metadata = metadata',
       approver = (case approver' of None \<Rightarrow> None | Some a \<Rightarrow> Some a),
       administrator = (case administrator' of None \<Rightarrow> None | Some a \<Rightarrow> Some a),
       inputs = inputs', output = output' \<rparr>"

definition ensure_address :: "prims \<Rightarrow> string option \<Rightarrow> error + PlatformAddress option" where
  "ensure_address P a =
     (case a of None \<Rightarrow> Inr None
      | Some s \<Rightarrow> bind_result (PlatformAddress_fromString P s) (\<lambda>x. Inr (Some x)))"

definition fromJSON :: "prims \<Rightarrow> AssetComposeTransactionJSON \<Rightarrow> error + AssetComposeTransaction" where
  "fromJSON P obj =
     (let d = json_data obj in
      bind_result (ensure_address P (data_approver d)) (\<lambda>approver'.
      bind_result (ensure_address P (data_administrator d)) (\<lambda>administrator'.
      bind_result (map_result (AssetTransferInput_fromJSON P) (data_inputs d)) (\<lambda>inputs'.
      bind_result (AssetMintOutput_fromJSON P (data_output d)) (\<lambda>output'.
        Inr (new_AssetComposeTransaction (data_networkId d) (data_shardId d) (data_metadata d)
               approver' administrator' inputs' output'))))))"

definition toJSON :: "prims \<Rightarrow> AssetComposeTransaction \<Rightarrow> AssetComposeTransactionJSON" where
  "toJSON P this =
     \<lparr> json_type = ''assetCompose'',
       json_data =
         \<lparr> data_networkId = networkId this,
           data_shardId = shardId this,
           data_metadata = metadata this,
           data_inputs = map (AssetTransferInput_toJSON P) (inputs this),
           data_output = AssetMintOutput_toJSON P (output this),
           data_approver =
             (case approver this of None \<Rightarrow> None | Some a \<Rightarrow> Some (PlatformAddress_toString P a)),
           data_administrator =
             (case administrator this of None \<Rightarrow> None
              | Some a \<Rightarrow> Some (PlatformAddress_toString P a)) \<rparr> \<rparr>"

definition toEncodeObject :: "prims \<Rightarrow> AssetComposeTransaction \<Rightarrow> EncodeObject" where
  "toEncodeObject P this =
     EList
      [ENumber 6,
       EString (networkId this),
       ENumber (shardId this),
       EString (metadata this),
       (case approver this of Some a \<Rightarrow> EList [EString (PlatformAddress_toString P a)]
        | None \<Rightarrow> EList []),
       (case administrator this of Some a \<Rightarrow> EList [EString (PlatformAddress_toString P a)]
        | None \<Rightarrow> EList []),
       EList (map (AssetTransferInput_toEncodeObject P) (inputs this)),
       H160_toEncodeObject P (mint_lockScriptHash (output this)),
       EList (map EBuffer (mint_parameters (output this))),
       (case mint_amount (output this) of Some a \<Rightarrow> EList [U64_toEncodeObject P a]
        | None \<Rightarrow> EList [])]"

definition rlpBytes :: "prims \<Rightarrow> AssetComposeTransaction \<Rightarrow> Buffer" where
  "rlpBytes P this = RLP_encode P (toEncodeObject P this)"

definition hash :: "prims \<Rightarrow> AssetComposeTransaction \<Rightarrow> error + H256" where
  "hash P this = H256_new P (blake256 P (rlpBytes P this))"

subsection \<open>hashWithoutScript\<close>

text \<open>Modelled from the spec: \<^verbatim>\<open>withoutScript()\<close> produces a copy with both script fields
  cleared.\<close>

definition withoutScript :: "AssetTransferInput \<Rightarrow> AssetTransferInput" where
  "withoutScript i = \<lparr> prevOut = prevOut i, lockScript = [], unlockScript = [] \<rparr>"

text \<open>\<^verbatim>\<open>xs[i]\<close> for an integer \<open>i\<close>: \<^verbatim>\<open>undefined\<close> outside the array.\<close>

definition js_nth :: "'a list \<Rightarrow> int \<Rightarrow> 'a option" where
  "js_nth xs i = (if 0 \<le> i \<and> nat i < length xs then Some (xs ! nat i) else None)"

text \<open>\<^verbatim>\<open>Buffer.from(s, "hex")\<close>: pairs of hex digits, up to the first pair that is not
  one.\<close>

definition hex_value :: "char \<Rightarrow> nat option" where
  "hex_value c =
     (let n = (of_char c :: nat) in
      if 48 \<le> n \<and> n \<le> 57 then Some (n - 48)
      else if 97 \<le> n \<and> n \<le> 102 then Some (n - 87)
      else if 65 \<le> n \<and> n \<le> 70 then Some (n - 55)
      else None)"

fun Buffer_from_hex :: "string \<Rightarrow> Buffer" where
  "Buffer_from_hex (a # b # rest) =
     (case (hex_value a, hex_value b) of
        (Some x, Some y) \<Rightarrow> word_of_nat (16 * x + y) # Buffer_from_hex rest
      | _ \<Rightarrow> [])"
| "Buffer_from_hex _ = []"

text \<open>\<^verbatim>\<open>params?: { tag: SignatureTag; index: number }\<close>; a field left out is \<open>None\<close>.
  The index is an integer.\<close>

record HashParams =
  param_tag :: "SignatureTag option"
  param_index :: "int option"

definition default_tag :: SignatureTag where
  "default_tag = SignatureTag InputAll OutputAll"

text \<open>\<^verbatim>\<open>const { tag = {input: "all", output: "all"}, index = null } = params || {}\<close>\<close>

definition params_tag :: "HashParams option \<Rightarrow> SignatureTag" where
  "params_tag params =
     (case params of None \<Rightarrow> default_tag
      | Some p \<Rightarrow> (case param_tag p of None \<Rightarrow> default_tag | Some t \<Rightarrow> t))"

definition params_index :: "HashParams option \<Rightarrow> int option" where
  "params_index params = (case params of None \<Rightarrow> None | Some p \<Rightarrow> param_index p)"

text \<open>The block that assigns \<^verbatim>\<open>inputs\<close> (lines 198 to 208).\<close>

definition hws_inputs ::
  "AssetComposeTransaction \<Rightarrow> SignatureTag \<Rightarrow> int option \<Rightarrow> error + AssetTransferInput list" where
  "hws_inputs this tag idx =
     (if tag_input tag = InputAll then Inr (map withoutScript (inputs this))
      else if tag_input tag = InputSingle then
        (case idx of
           None \<Rightarrow> Inl MissingIndex
         | Some i \<Rightarrow>
             (case js_nth (inputs this) i of
                None \<Rightarrow> Inl TypeError
              | Some input \<Rightarrow> Inr [withoutScript input]))
      else Inl InvalidSignatureTag)"

definition zero_lockScriptHash :: string where
  "zero_lockScriptHash = ''0000000000000000000000000000000000000000''"

text \<open>The block that assigns \<^verbatim>\<open>output\<close> (lines 209 to 223).\<close>

definition hws_output ::
  "prims \<Rightarrow> AssetComposeTransaction \<Rightarrow> SignatureTag \<Rightarrow> error + AssetMintOutput" where
  "hws_output P this tag =
     (if tag_output tag = OutputAll then Inr (output this)
      else if tag_output tag = OutputArray [] then
        bind_result (H160_new P zero_lockScriptHash) (\<lambda>h.
          Inr \<lparr> mint_lockScriptHash = h, mint_parameters = [], mint_amount = None \<rparr>)
      else Inl InvalidSignatureTag)"

definition hashWithoutScript ::
  "prims \<Rightarrow> AssetComposeTransaction \<Rightarrow> HashParams option \<Rightarrow> error + H256" where
  "hashWithoutScript P this params =
     (let tag = params_tag params; idx = params_index params in
      bind_result (hws_inputs this tag idx) (\<lambda>inputs'.
      bind_result (hws_output P this tag) (\<lambda>output'.
        H256_new P
          (blake256WithKey P
             (DataBuffer
                (rlpBytes P
                   (new_AssetComposeTransaction (networkId this) (shardId this) (metadata this)
                      (approver this) (administrator this) inputs' output')))
             (Buffer_from_hex (blake128 P (encodeSignatureTag P tag)))))))"

subsection \<open>addInputs\<close>

text \<open>An element of the argument array: an \<^verbatim>\<open>AssetTransferInput\<close>, an \<^verbatim>\<open>Asset\<close>, or
  anything else.\<close>

datatype InputArg = ArgInput AssetTransferInput | ArgAsset Asset | ArgOther

text \<open>The \<^verbatim>\<open>forEach\<close> loop: every accepted element is pushed on \<^verbatim>\<open>this.inputs\<close> at once,
  so the elements before a rejected one stay pushed.\<close>

fun addInputs_forEach ::
  "prims \<Rightarrow> InputArg list \<Rightarrow> nat \<Rightarrow> AssetComposeTransaction \<Rightarrow> error option \<times> AssetComposeTransaction" where
  "addInputs_forEach P [] i this = (None, this)"
| "addInputs_forEach P (a # rest) i this =
     (case a of
        ArgInput x \<Rightarrow> addInputs_forEach P rest (Suc i) (this\<lparr>inputs := inputs this @ [x]\<rparr>)
      | ArgAsset y \<Rightarrow>
          addInputs_forEach P rest (Suc i)
            (this\<lparr>inputs := inputs this @ [Asset_createTransferInput P y]\<rparr>)
      | ArgOther \<Rightarrow> (Some (UnexpectedInput i), this))"

text \<open>The first argument is one element (\<open>Inl\<close>) or an array (\<open>Inr\<close>); the rest
  parameters are used only with a single element.  The result is the error thrown, if
  any, and the receiver after the call (which is also the value returned).\<close>

definition addInputs ::
  "prims \<Rightarrow> AssetComposeTransaction \<Rightarrow> InputArg + InputArg list \<Rightarrow> InputArg list \<Rightarrow>
   error option \<times> AssetComposeTransaction" where
  "addInputs P this inputs' rest =
     (let arr = (case inputs' of Inl x \<Rightarrow> x # rest | Inr xs \<Rightarrow> xs)
      in addInputs_forEach P arr 0 this)"

subsection \<open>Addresses\<close>

text \<open>
  \<^verbatim>\<open>ToInt32\<close>, which the bitwise operators apply to their operands.  On the results of
  \<^verbatim>\<open>ToInt32\<close>, \<^verbatim>\<open>>>\<close> is \<open>drop_bit\<close> and \<^verbatim>\<open>&\<close> is \<open>AND\<close> on two's complement integers.
\<close>

definition ToInt32 :: "int \<Rightarrow> int" where
  "ToInt32 n = (let m = n mod 2 ^ 32 in if 2 ^ 31 \<le> m then m - 2 ^ 32 else m)"

definition hexDigit :: "nat \<Rightarrow> char" where
  "hexDigit d = ''0123456789abcdef'' ! d"

text \<open>\<^verbatim>\<open>n.toString(16)\<close> for an integer \<open>n\<close>.\<close>

fun natToString16 :: "nat \<Rightarrow> string" where
  "natToString16 n =
     (if n < 16 then [hexDigit n] else natToString16 (n div 16) @ [hexDigit (n mod 16)])"

declare natToString16.simps [simp del]

definition toString16 :: "int \<Rightarrow> string" where
  "toString16 x = (if x < 0 then CHR ''-'' # natToString16 (nat (- x)) else natToString16 (nat x))"

text \<open>\<^verbatim>\<open>s.slice(-k)\<close>: the last \<open>k\<close> characters, or all of \<open>s\<close> when it is shorter.\<close>

definition slice_from_end :: "nat \<Rightarrow> string \<Rightarrow> string" where
  "slice_from_end k s = drop (length s - k) s"

definition convertU16toHex :: "int \<Rightarrow> string" where
  "convertU16toHex id' =
     (let hi = slice_from_end 2 (''0'' @ toString16 (drop_bit 8 (ToInt32 id') AND ToInt32 0xff));
          lo = slice_from_end 2 (''0'' @ toString16 (ToInt32 id' AND ToInt32 0xff))
      in hi @ lo)"

text \<open>
  \<^verbatim>\<open>blake.replace(new RegExp(`^.{${prefix.length}}`), prefix)\<close>: when the string starts
  with \<open>length prefix\<close> characters none of which is a line terminator, they are replaced
  by \<open>prefix\<close>; otherwise the string is returned as it is.  (The prefixes built here are
  hexadecimal digits, so no \<^verbatim>\<open>$\<close> pattern of the replacement string occurs.  Strings
  are ASCII, one \<open>char\<close> for each character, so the line terminators are line feed and
  carriage return.)
\<close>

definition line_terminator :: "char \<Rightarrow> bool" where
  "line_terminator c \<longleftrightarrow> (of_char c :: nat) = 10 \<or> (of_char c :: nat) = 13"

definition replace_leading :: "string \<Rightarrow> string \<Rightarrow> string" where
  "replace_leading s prefix =
     (let n = length prefix in
      if n \<le> length s \<and> list_all (\<lambda>c. \<not> line_terminator c) (take n s)
      then prefix @ drop n s else s)"

definition scheme_key :: Buffer where
  "scheme_key = [0x00, 0x00, 0x00, 0x00, 0x00, 0x00, 0x00, 0x00,
                 0xff, 0xff, 0xff, 0xff, 0xff, 0xff, 0xff, 0xff]"

definition asset_key :: Buffer where
  "asset_key = [0x00, 0x00, 0x00, 0x00, 0x00, 0x00, 0x00, 0x00,
                0x00, 0x00, 0x00, 0x00, 0x00, 0x00, 0x00, 0x00]"

definition getAssetSchemeAddress :: "prims \<Rightarrow> AssetComposeTransaction \<Rightarrow> error + H256" where
  "getAssetSchemeAddress P this =
     bind_result (hash P this) (\<lambda>h.
       let blake = blake256WithKey P (DataString (h256_value h)) scheme_key;
           shardPrefix = convertU16toHex (shardId this);
           prefix = ''5300'' @ shardPrefix
       in H256_new P (replace_leading blake prefix))"

definition getAssetAddress :: "prims \<Rightarrow> AssetComposeTransaction \<Rightarrow> error + H256" where
  "getAssetAddress P this =
     bind_result (hash P this) (\<lambda>h.
       let blake = blake256WithKey P (DataString (h256_value h)) asset_key;
           shardPrefix = convertU16toHex (shardId this);
           prefix = ''4100'' @ shardPrefix
       in H256_new P (replace_leading blake prefix))"

subsection \<open>getComposedAsset and getAssetScheme\<close>

text \<open>
  \<^verbatim>\<open>getComposedAsset\<close> throws when the amount is \<^verbatim>\<open>null\<close>; the later test
  \<^verbatim>\<open>amount == null\<close> that would substitute \<^verbatim>\<open>U64.MAX_VALUE\<close> is kept as written.
\<close>

definition getComposedAsset :: "prims \<Rightarrow> AssetComposeTransaction \<Rightarrow> error + Asset" where
  "getComposedAsset P this =
     (let lockScriptHash' = mint_lockScriptHash (output this);
          parameters' = mint_parameters (output this);
          amount' = mint_amount (output this)
      in if amount' = None then Inl UnsupportedOperation
         else
           bind_result (getAssetSchemeAddress P this) (\<lambda>address.
           bind_result (hash P this) (\<lambda>h.
             Inr \<lparr> asset_assetType = address,
                   asset_lockScriptHash = lockScriptHash',
                   asset_parameters = parameters',
                   asset_amount = (case amount' of None \<Rightarrow> U64_MAX_VALUE P | Some a \<Rightarrow> a),
                   asset_transactionHash = h,
                   asset_transactionOutputIndex = 0 \<rparr>)))"

text \<open>
  The accumulator of \<^verbatim>\<open>reduce\<close> is an object keyed by \<^verbatim>\<open>assetType.value\<close>: an association
  list in insertion order, where assigning to a key that exists keeps its position.
\<close>

fun pool_reduce ::
  "prims \<Rightarrow> (string \<times> U64) list \<Rightarrow> AssetTransferInput list \<Rightarrow> error + (string \<times> U64) list" where
  "pool_reduce P acc [] = Inr acc"
| "pool_reduce P acc (input # rest) =
     (let k = h256_value (assetType (prevOut input)); assetAmount = amount (prevOut input) in
      bind_result (U64_plus P (map_of acc k) assetAmount) (\<lambda>v.
        pool_reduce P (AList.update k v acc) rest))"

text \<open>
  \<^verbatim>\<open>_.toPairs(obj)\<close> lists the own enumerable properties in property order: the keys
  that are array indices (canonical decimal numerals below \<open>2\<^sup>3\<^sup>2 - 1\<close>) in ascending
  order, then the other keys in insertion order.
\<close>

definition is_digit :: "char \<Rightarrow> bool" where
  "is_digit c \<longleftrightarrow> 48 \<le> (of_char c :: nat) \<and> (of_char c :: nat) \<le> 57"

definition digits_value :: "string \<Rightarrow> nat" where
  "digits_value s = foldl (\<lambda>n c. 10 * n + ((of_char c :: nat) - 48)) 0 s"

definition is_array_index :: "string \<Rightarrow> bool" where
  "is_array_index s \<longleftrightarrow>
     s \<noteq> [] \<and> list_all is_digit s \<and> (s = ''0'' \<or> hd s \<noteq> CHR ''0'') \<and>
     digits_value s < 2 ^ 32 - 1"

definition toPairs :: "(string \<times> 'v) list \<Rightarrow> (string \<times> 'v) list" where
  "toPairs obj =
     sort_key (\<lambda>kv. digits_value (fst kv)) (filter (\<lambda>kv. is_array_index (fst kv)) obj) @
     filter (\<lambda>kv. \<not> is_array_index (fst kv)) obj"

text \<open>The callback of the final \<^verbatim>\<open>map\<close>; \<^verbatim>\<open>U64.ensure\<close> receives the \<^verbatim>\<open>U64\<close> that
  \<^verbatim>\<open>U64.plus\<close> returned and, as for the constructor above, returns it.\<close>

definition pool_entry :: "prims \<Rightarrow> string \<times> U64 \<Rightarrow> error + PoolEntry" where
  "pool_entry P kv =
     bind_result (H256_new P (fst kv)) (\<lambda>t. Inr \<lparr> pool_assetType = t, pool_amount = snd kv \<rparr>)"

definition getAssetScheme :: "prims \<Rightarrow> AssetComposeTransaction \<Rightarrow> error + AssetScheme" where
  "getAssetScheme P this =
     (case mint_amount (output this) of
        None \<Rightarrow> Inl UnsupportedOperation
      | Some amount' \<Rightarrow>
          bind_result (pool_reduce P [] (inputs this)) (\<lambda>acc.
          bind_result (map_result (pool_entry P) (toPairs acc)) (\<lambda>pool.
            Inr \<lparr> scheme_networkId = networkId this,
                  scheme_shardId = shardId this,
                  scheme_metadata = metadata this,
                  scheme_amount = amount',
                  scheme_approver = approver this,
                  scheme_administrator = administrator this,
                  scheme_pool = pool \<rparr>)))"

subsection \<open>Method calls on a receiver\<close>

text \<open>
  A method call takes the receiver and returns its result together with the receiver
  after the call.  Only \<^verbatim>\<open>addInputs\<close> assigns to a field of \<^verbatim>\<open>this\<close>.
\<close>

datatype Method =
    Hash
  | HashWithoutScript "HashParams option"
  | ToJSON
  | ToEncodeObject
  | RlpBytes
  | GetAssetScheme
  | GetComposedAsset
  | GetAssetSchemeAddress
  | GetAssetAddress
  | AddInputs "InputArg + InputArg list" "InputArg list"

datatype Returned =
    RetH256 "error + H256"
  | RetJSON AssetComposeTransactionJSON
  | RetEncodeObject EncodeObject
  | RetBuffer Buffer
  | RetAssetScheme "error + AssetScheme"
  | RetAsset "error + Asset"
  | RetThis "error option"

fun call :: "prims \<Rightarrow> Method \<Rightarrow> AssetComposeTransaction \<Rightarrow> Returned \<times> AssetComposeTransaction" where
  "call P Hash this = (RetH256 (hash P this), this)"
| "call P (HashWithoutScript params) this = (RetH256 (hashWithoutScript P this params), this)"
| "call P ToJSON this = (RetJSON (toJSON P this), this)"
| "call P ToEncodeObject this = (RetEncodeObject (toEncodeObject P this), this)"
| "call P RlpBytes this = (RetBuffer (rlpBytes P this), this)"
| "call P GetAssetScheme this = (RetAssetScheme (getAssetScheme P this), this)"
| "call P GetComposedAsset this = (RetAsset (getComposedAsset P this), this)"
| "call P GetAssetSchemeAddress this = (RetH256 (getAssetSchemeAddress P this), this)"
| "call P GetAssetAddress this = (RetH256 (getAssetAddress P this), this)"
| "call P (AddInputs inputs' rest) this =
     (case addInputs P this inputs' rest of (e, this') \<Rightarrow> (RetThis e, this'))"

section \<open>Contracts of the external functions and reference definitions\<close>

text \<open>
  The contracts the specification gives for the external value types and hash functions:
  a digest is a string of lowercase hexadecimal digits of fixed length (64 for the
  256-bit hashes), and the constructor of \<^verbatim>\<open>H256\<close> keeps such a string as its value.
\<close>

definition is_hex_digit :: "char \<Rightarrow> bool" where
  "is_hex_digit c \<longleftrightarrow> c \<in> set ''0123456789abcdef''"

definition hex_string :: "nat \<Rightarrow> string \<Rightarrow> bool" where
  "hex_string n s \<longleftrightarrow> length s = n \<and> list_all is_hex_digit s"

definition H256_contract :: "prims \<Rightarrow> bool" where
  "H256_contract P \<longleftrightarrow> (\<forall>s. hex_string 64 s \<longrightarrow> H256_new P s = Inr (H256 s))"

definition blake_contract :: "prims \<Rightarrow> bool" where
  "blake_contract P \<longleftrightarrow>
     (\<forall>b. hex_string 64 (blake256 P b)) \<and> (\<forall>d k. hex_string 64 (blake256WithKey P d k))"

text \<open>
  Modelled from the spec: a value that fails to parse into its value type raises an error
  (\<open>InvalidFieldValue\<close>).  \<^verbatim>\<open>U64.plus\<close> converts both operands to \<^verbatim>\<open>U64\<close> first, and
  \<^verbatim>\<open>undefined\<close> is no unsigned integer: with \<^verbatim>\<open>undefined\<close> as its first operand it
  raises.
\<close>

definition U64_plus_rejects_undefined :: "prims \<Rightarrow> bool" where
  "U64_plus_rejects_undefined P \<longleftrightarrow> (\<forall>b. \<exists>e. U64_plus P None b = Inl e)"

text \<open>
  The hexadecimal form of a buffer, two lowercase digits for each byte, most significant
  digit first: what \<^verbatim>\<open>Buffer.from(s, "hex")\<close> is the inverse of.
\<close>

definition spec_hex_of_bytes :: "Buffer \<Rightarrow> string" where
  "spec_hex_of_bytes bs =
     concat (map (\<lambda>b. [hexDigit (unat b div 16), hexDigit (unat b mod 16)]) bs)"

text \<open>The specification's shard prefix: the big-endian 16-bit value as four hexadecimal
  digits.\<close>

definition spec_shard_prefix :: "nat \<Rightarrow> string" where
  "spec_shard_prefix n =
     [hexDigit (n div 4096 mod 16), hexDigit (n div 256 mod 16),
      hexDigit (n div 16 mod 16), hexDigit (n mod 16)]"

text \<open>
  The specification's partial hash of a rebuilt transaction:
  \<^verbatim>\<open>key128 = hash128(encodeTag(tag))\<close>, result \<^verbatim>\<open>hash256WithKey(encodedBytes, key128)\<close>,
  wrapped as an \<^verbatim>\<open>H256\<close>.
\<close>

definition spec_partial_hash :: "prims \<Rightarrow> AssetComposeTransaction \<Rightarrow> SignatureTag \<Rightarrow> error + H256" where
  "spec_partial_hash P rebuilt tag =
     (let e = RLP_encode P (toEncodeObject P rebuilt);
          k = Buffer_from_hex (blake128 P (encodeSignatureTag P tag))
      in H256_new P (blake256WithKey P (DataBuffer e) k))"

text \<open>An optional value as a list of no or one element.\<close>

definition optional_list :: "'a option \<Rightarrow> 'a list" where
  "optional_list x = (case x of None \<Rightarrow> [] | Some a \<Rightarrow> [a])"


text \<open>
  The JSON codecs of the external classes return the values they were built from: the
  addresses, the inputs and the output of a transaction; the hashes and the amount of an
  out-point.
\<close>

definition json_codecs_roundtrip :: "prims \<Rightarrow> AssetComposeTransaction \<Rightarrow> bool" where
  "json_codecs_roundtrip P tx \<longleftrightarrow>
     (\<forall>a. approver tx = Some a \<longrightarrow>
        PlatformAddress_fromString P (PlatformAddress_toString P a) = Inr a) \<and>
     (\<forall>a. administrator tx = Some a \<longrightarrow>
        PlatformAddress_fromString P (PlatformAddress_toString P a) = Inr a) \<and>
     (\<forall>i \<in> set (inputs tx).
        AssetTransferInput_fromJSON P (AssetTransferInput_toJSON P i) = Inr i) \<and>
     AssetMintOutput_fromJSON P (AssetMintOutput_toJSON P (output tx)) = Inr (output tx)"

definition value_codecs_roundtrip :: "prims \<Rightarrow> AssetOutPoint \<Rightarrow> bool" where
  "value_codecs_roundtrip P x \<longleftrightarrow>
     H256_new P (h256_value (transactionHash x)) = Inr (transactionHash x) \<and>
     H256_new P (h256_value (assetType x)) = Inr (assetType x) \<and>
     U64_ensure_string P (''0x'' @ U64_toString16 P (amount x)) = Inr (amount x)"

section \<open>A concrete instance for evaluating the model\<close>

text \<open>
  An instance of the external functions that satisfies the contracts above, and a compose
  transaction with two inputs of one asset type; the theorems are instantiated on them.
\<close>

definition example_hex_value :: "string \<Rightarrow> nat" where
  "example_hex_value s = foldl (\<lambda>n c. 16 * n + (case hex_value c of None \<Rightarrow> 0 | Some d \<Rightarrow> d)) 0 s"

definition example_type :: H256 where
  "example_type = H256 ''2222222222222222222222222222222222222222222222222222222222222222''"

definition example_outpoint :: "U64 \<Rightarrow> AssetOutPoint" where
  "example_outpoint a =
     \<lparr> transactionHash = H256 ''1111111111111111111111111111111111111111111111111111111111111111'',
       index = 0, assetType = example_type, amount = a,
       lockScriptHash = None, parameters = None \<rparr>"

definition example_input :: "U64 \<Rightarrow> AssetTransferInput" where
  "example_input a = \<lparr> prevOut = example_outpoint a, lockScript = [1, 2], unlockScript = [3] \<rparr>"

definition example_output :: AssetMintOutput where
  "example_output =
     \<lparr> mint_lockScriptHash = H160 ''3333333333333333333333333333333333333333'',
       mint_parameters = [[4]], mint_amount = Some 100 \<rparr>"

definition example_input_json :: "AssetTransferInput \<Rightarrow> JSON" where
  "example_input_json i =
     JObject [(''amount'', JNumber (int (amount (prevOut i)))),
              (''lockScript'', JArray (map (\<lambda>b. JNumber (uint b)) (lockScript i))),
              (''unlockScript'', JArray (map (\<lambda>b. JNumber (uint b)) (unlockScript i)))]"

definition example_prims :: prims where
  "example_prims =
     \<lparr> blake128 = (\<lambda>b. ''cccccccccccccccccccccccccccccccc''),
       blake256 = (\<lambda>b. ''aaaaaaaaaaaaaaaaaaaaaaaaaaaaaaaaaaaaaaaaaaaaaaaaaaaaaaaaaaaaaaaa''),
       blake256WithKey = (\<lambda>d k.
         if k = scheme_key
         then ''dddddddddddddddddddddddddddddddddddddddddddddddddddddddddddddddd''
         else ''bbbbbbbbbbbbbbbbbbbbbbbbbbbbbbbbbbbbbbbbbbbbbbbbbbbbbbbbbbbbbbbb''),
       encodeSignatureTag = (\<lambda>t.
         [(if tag_input t = InputAll then 1 else 0) + (if tag_output t = OutputAll then 2 else 0)]),
       RLP_encode = (\<lambda>e. []),
       H160_new = (\<lambda>s. if hex_string 40 s then Inr (H160 s) else Inl InvalidFieldValue),
       H256_new = (\<lambda>s. if hex_string 64 s then Inr (H256 s) else Inl InvalidFieldValue),
       H160_toEncodeObject = (\<lambda>h. EString (''0x'' @ h160_value h)),
       U64_toEncodeObject = (\<lambda>a. ENumber (int a)),
       U64_plus = (\<lambda>a b.
         case a of None \<Rightarrow> Inl InvalidFieldValue
         | Some x \<Rightarrow> if x + b \<le> 2 ^ 64 - 1 then Inr (x + b) else Inl InvalidFieldValue),
       U64_ensure_string = (\<lambda>s.
         if take 2 s = ''0x'' then Inr (example_hex_value (drop 2 s)) else Inl InvalidFieldValue),
       U64_toString16 = natToString16,
       U64_MAX_VALUE = 2 ^ 64 - 1,
       PlatformAddress_toString = address_value,
       PlatformAddress_fromString = (\<lambda>s. Inr (PlatformAddress s)),
       AssetTransferInput_toEncodeObject = (\<lambda>i. EList [EBuffer (lockScript i), EBuffer (unlockScript i)]),
       AssetTransferInput_toJSON = example_input_json,
       AssetTransferInput_fromJSON = (\<lambda>j.
         if j = example_input_json (example_input 30) then Inr (example_input 30)
         else if j = example_input_json (example_input 70) then Inr (example_input 70)
         else Inl InvalidFieldValue),
       AssetMintOutput_toJSON = (\<lambda>out. JObject [(''amount'', JNumber (int (the (mint_amount out))))]),
       AssetMintOutput_fromJSON = (\<lambda>j.
         if j = JObject [(''amount'', JNumber 100)] then Inr example_output
         else Inl InvalidFieldValue),
       Asset_createTransferInput = (\<lambda>a.
         \<lparr> prevOut =
             \<lparr> transactionHash = asset_transactionHash a,
               index = asset_transactionOutputIndex a,
               assetType = asset_assetType a,
               amount = asset_amount a,
               lockScriptHash = Some (asset_lockScriptHash a),
               parameters = Some (asset_parameters a) \<rparr>,
           lockScript = [], unlockScript = [] \<rparr>) \<rparr>"

definition example_tx :: AssetComposeTransaction where
  "example_tx =
     \<lparr> networkId = ''tc'', shardId = 0x0102, metadata = ''composed'',
       approver = None,
       administrator = Some (PlatformAddress ''tccqzn9jjm3j6qg69smd7cn0eup4w7z2yu9my9a2k78''),
       inputs = [example_input 30, example_input 70],
       output = example_output \<rparr>"

text \<open>
  A second instance whose encoder and keyed hash depend on their arguments: the encoder
  writes every element of the encode object, and the keyed digest shows the first byte of
  the key, the length of the data and the sum of its bytes.
\<close>

fun example_encode :: "EncodeObject \<Rightarrow> Buffer" where
  "example_encode (ENumber n) = [word_of_int n]"
| "example_encode (EString s) = map (\<lambda>c. of_char c) s"
| "example_encode (EBuffer b) = word_of_nat (length b) # b"
| "example_encode (EList xs) = word_of_nat (length xs) # concat (map example_encode xs)"

definition digest_prims :: prims where
  "digest_prims = example_prims
     \<lparr> blake128 := (\<lambda>b.
         spec_hex_of_bytes [case b of [] \<Rightarrow> 0 | x # _ \<Rightarrow> x] @ ''000000000000000000000000000000''),
       blake256WithKey := (\<lambda>d k.
         spec_hex_of_bytes
           [case k of [] \<Rightarrow> 0 | x # _ \<Rightarrow> x,
            case d of DataBuffer e \<Rightarrow> word_of_nat (length e) | DataString s \<Rightarrow> 0,
            case d of DataBuffer e \<Rightarrow> foldr (+) e 0 | DataString s \<Rightarrow> 0] @
         ''0000000000000000000000000000000000000000000000000000000000''),
       RLP_encode := example_encode,
       AssetTransferInput_toEncodeObject := (\<lambda>i.
         EList [ENumber (int (amount (prevOut i))), EBuffer (lockScript i),
                EBuffer (unlockScript i)]) \<rparr>"

text \<open>The same transaction with a \<^verbatim>\<open>null\<close> output amount, and an out-point that carries the
  optional lock script hash.\<close>

definition example_null_tx :: AssetComposeTransaction where
  "example_null_tx = example_tx\<lparr>output := example_output\<lparr>mint_amount := None\<rparr>\<rparr>"

definition example_locked_outpoint :: AssetOutPoint where
  "example_locked_outpoint =
     (example_outpoint 30)\<lparr>lockScriptHash := Some (H160 ''3333333333333333333333333333333333333333'')\<rparr>"

section \<open>Auxiliary lemmas\<close>

subsection \<open>The shard prefix\<close>

lemma ToInt32_cong: "\<exists>k. ToInt32 x = x + k * 2 ^ 32"
proof (cases "2 ^ 31 \<le> x mod 2 ^ 32")
  case True
  have "x mod 2 ^ 32 - 2 ^ 32 = x + (- (x div 2 ^ 32) - 1) * 2 ^ 32"
    by (simp add: algebra_simps flip: minus_div_mult_eq_mod)
  with True show ?thesis unfolding ToInt32_def Let_def by (simp only: if_True) blast
next
  case False
  have "x mod 2 ^ 32 = x + (- (x div 2 ^ 32)) * 2 ^ 32"
    by (simp add: algebra_simps flip: minus_div_mult_eq_mod)
  with False show ?thesis unfolding ToInt32_def Let_def by (simp only: if_False) blast
qed

lemma ToInt32_mod: "n \<le> 32 \<Longrightarrow> ToInt32 x mod 2 ^ n = x mod 2 ^ n"
proof -
  assume n: "n \<le> 32"
  obtain k where k: "ToInt32 x = x + k * 2 ^ 32" using ToInt32_cong by blast
  have "(2::int) ^ 32 = 2 ^ (32 - n) * 2 ^ n" using n by (simp flip: power_add)
  then have "ToInt32 x = x + (k * 2 ^ (32 - n)) * 2 ^ n" using k by (simp add: mult.assoc)
  then show ?thesis by (simp only: mod_mult_self1)
qed

lemma ToInt32_ff: "ToInt32 0xff = 255"
  by (simp add: ToInt32_def)

lemma and_255: "(x::int) AND 255 = x mod 256"
proof -
  have m: "(mask 8 :: int) = 255" by (simp add: mask_eq_exp_minus_1)
  have "x AND mask 8 = x mod 2 ^ 8"
    by (simp only: take_bit_eq_mod flip: take_bit_eq_mask)
  then show ?thesis unfolding m by simp
qed

lemma low_byte: "ToInt32 x AND ToInt32 0xff = x mod 256"
  using ToInt32_mod [of 8 x] by (simp add: ToInt32_ff and_255)

lemma high_byte: "drop_bit 8 (ToInt32 x) AND ToInt32 0xff = (x mod 65536) div 256"
proof -
  have "drop_bit 8 (ToInt32 x) AND 255 = take_bit 8 (drop_bit 8 (ToInt32 x))"
    by (simp add: and_255 take_bit_eq_mod)
  also have "\<dots> = drop_bit 8 (take_bit 16 (ToInt32 x))"
    by (simp add: drop_bit_take_bit)
  also have "\<dots> = (x mod 65536) div 256"
    using ToInt32_mod [of 16 x] by (simp add: take_bit_eq_mod drop_bit_eq_div)
  finally show ?thesis by (simp add: ToInt32_ff)
qed

lemma padded_byte:
  assumes "n < 256"
  shows "slice_from_end 2 (''0'' @ natToString16 n) = [hexDigit (n div 16), hexDigit (n mod 16)]"
proof (cases "n < 16")
  case True
  then show ?thesis
    by (simp add: natToString16.simps [of n] slice_from_end_def hexDigit_def)
next
  case False
  from assms have "n div 16 < 16" by simp
  with False show ?thesis
    by (simp add: natToString16.simps [of n] natToString16.simps [of "n div 16"] slice_from_end_def)
qed

lemma convertU16toHex_bytes:
  "convertU16toHex x =
     [hexDigit (nat ((x mod 65536) div 256) div 16), hexDigit (nat ((x mod 65536) div 256) mod 16),
      hexDigit (nat (x mod 256) div 16), hexDigit (nat (x mod 256) mod 16)]"
proof -
  have a: "nat ((x mod 65536) div 256) < 256" by simp
  have b: "nat (x mod 256) < 256" by simp
  have c: "\<not> (x mod 65536) div 256 < 0" by (simp add: pos_imp_zdiv_neg_iff)
  have d: "\<not> x mod 256 < 0" by simp
  show ?thesis
    unfolding convertU16toHex_def Let_def low_byte high_byte toString16_def
    using padded_byte [OF a] padded_byte [OF b] c d by simp
qed

lemma convertU16toHex_spec: "convertU16toHex x = spec_shard_prefix (nat (x mod 65536))"
proof -
  define n where "n = nat (x mod 65536)"
  have x: "x mod 65536 = int n" by (simp add: n_def)
  have lo: "x mod 256 = int (n mod 256)"
  proof -
    have "x mod 256 = (x mod 65536) mod 256" by (simp add: mod_mod_cancel)
    then show ?thesis by (simp add: x zmod_int)
  qed
  have hi: "(x mod 65536) div 256 = int (n div 256)" by (simp add: x zdiv_int)
  have n: "n < 65536" by (simp add: n_def)
  have "n div 4096 < 16" using n by simp
  then have 1: "n div 256 div 16 = n div 4096 mod 16"
    using div_mult2_eq [of n 256 16] by simp
  have "n mod 256 = 16 * (n div 16 mod 16) + n mod 16"
    using mod_mult2_eq [of n 16 16] by simp
  then have 3: "n mod 256 div 16 = n div 16 mod 16" by simp
  have 4: "n mod 256 mod 16 = n mod 16" by (simp add: mod_mod_cancel)
  show ?thesis
    unfolding convertU16toHex_bytes spec_shard_prefix_def lo hi
    by (simp add: 1 3 4 flip: n_def)
qed

lemma hexDigits_are_hex: "list_all (\<lambda>d. is_hex_digit (hexDigit d)) [0..<16]"
  by code_simp

lemma hexDigit_is_hex: "d < 16 \<Longrightarrow> is_hex_digit (hexDigit d)"
proof -
  assume "d < 16"
  then have "d \<in> set [0..<16]" by simp
  with hexDigits_are_hex show ?thesis
    unfolding list_all_iff by blast
qed

lemma convertU16toHex_hex: "hex_string 4 (convertU16toHex x)"
  by (simp add: convertU16toHex_spec spec_shard_prefix_def hex_string_def hexDigit_is_hex)


lemma hex_not_line_terminator: "is_hex_digit c \<Longrightarrow> \<not> line_terminator c"
  by (auto simp: is_hex_digit_def line_terminator_def)

lemma replace_leading_digest:
  assumes s: "hex_string 64 s" and p: "hex_string 8 p"
  shows "replace_leading s p = p @ drop 8 s" and "hex_string 64 (p @ drop 8 s)"
proof -
  from s have "list_all (\<lambda>c. \<not> line_terminator c) (take 8 s)"
    unfolding hex_string_def list_all_iff
    by (blast dest: in_set_takeD hex_not_line_terminator)
  with s p show "replace_leading s p = p @ drop 8 s"
    by (simp add: replace_leading_def hex_string_def)
  from s p show "hex_string 64 (p @ drop 8 s)"
    unfolding hex_string_def list_all_iff by (auto dest: in_set_dropD)
qed

lemma prefix_hex:
  "hex_string 8 (''5300'' @ convertU16toHex x)" "hex_string 8 (''4100'' @ convertU16toHex x)"
  using convertU16toHex_hex [of x] by (simp_all add: hex_string_def is_hex_digit_def)

lemma hash_digest:
  assumes "H256_contract P" and "blake_contract P"
  shows "hash P tx = Inr (H256 (blake256 P (rlpBytes P tx)))"
  using assms by (simp add: hash_def H256_contract_def blake_contract_def)

lemma getAssetSchemeAddress_digest:
  assumes "H256_contract P" and "blake_contract P"
  shows "getAssetSchemeAddress P tx =
     Inr (H256 (''5300'' @ convertU16toHex (shardId tx) @
            drop 8 (blake256WithKey P (DataString (blake256 P (rlpBytes P tx))) scheme_key)))"
proof -
  let ?b = "blake256WithKey P (DataString (blake256 P (rlpBytes P tx))) scheme_key"
  let ?p = "''5300'' @ convertU16toHex (shardId tx)"
  from assms(2) have b: "hex_string 64 ?b" by (simp add: blake_contract_def)
  have r: "replace_leading ?b ?p = ?p @ drop 8 ?b"
    by (rule replace_leading_digest(1) [OF b prefix_hex(1)])
  have "H256_new P (replace_leading ?b ?p) = Inr (H256 (?p @ drop 8 ?b))"
    unfolding r using assms(1) replace_leading_digest(2) [OF b prefix_hex(1)]
    unfolding H256_contract_def by blast
  then show ?thesis
    unfolding getAssetSchemeAddress_def hash_digest [OF assms] bind_result_def Let_def
    by simp
qed

lemma getAssetAddress_digest:
  assumes "H256_contract P" and "blake_contract P"
  shows "getAssetAddress P tx =
     Inr (H256 (''4100'' @ convertU16toHex (shardId tx) @
            drop 8 (blake256WithKey P (DataString (blake256 P (rlpBytes P tx))) asset_key)))"
proof -
  let ?b = "blake256WithKey P (DataString (blake256 P (rlpBytes P tx))) asset_key"
  let ?p = "''4100'' @ convertU16toHex (shardId tx)"
  from assms(2) have b: "hex_string 64 ?b" by (simp add: blake_contract_def)
  have r: "replace_leading ?b ?p = ?p @ drop 8 ?b"
    by (rule replace_leading_digest(1) [OF b prefix_hex(2)])
  have "H256_new P (replace_leading ?b ?p) = Inr (H256 (?p @ drop 8 ?b))"
    unfolding r using assms(1) replace_leading_digest(2) [OF b prefix_hex(2)]
    unfolding H256_contract_def by blast
  then show ?thesis
    unfolding getAssetAddress_def hash_digest [OF assms] bind_result_def Let_def
    by simp
qed

subsection \<open>The concrete instance satisfies the contracts\<close>

lemma example_H256_contract: "H256_contract example_prims"
  by (simp add: H256_contract_def example_prims_def)

lemma example_blake_contract: "blake_contract example_prims"
  by (simp add: blake_contract_def example_prims_def hex_string_def is_hex_digit_def)


lemma example_keyed_digest:
  "blake256WithKey example_prims d (replicate 8 0x00 @ replicate 8 0xff) =
     ''dddddddddddddddddddddddddddddddddddddddddddddddddddddddddddddddd''"
  "blake256WithKey example_prims d (replicate 16 0x00) =
     ''bbbbbbbbbbbbbbbbbbbbbbbbbbbbbbbbbbbbbbbbbbbbbbbbbbbbbbbbbbbbbbbb''"
proof -
  have k: "(replicate 8 0x00 @ replicate 8 0xff :: Buffer) = scheme_key"
    by (simp add: scheme_key_def numeral_eq_Suc)
  have k2: "(replicate 16 0x00 :: Buffer) = asset_key"
    by (simp add: asset_key_def numeral_eq_Suc)
  have k3: "asset_key \<noteq> scheme_key"
    by (simp add: asset_key_def scheme_key_def)
  show "blake256WithKey example_prims d (replicate 8 0x00 @ replicate 8 0xff) =
     ''dddddddddddddddddddddddddddddddddddddddddddddddddddddddddddddddd''"
    unfolding k by (simp add: example_prims_def)
  show "blake256WithKey example_prims d (replicate 16 0x00) =
     ''bbbbbbbbbbbbbbbbbbbbbbbbbbbbbbbbbbbbbbbbbbbbbbbbbbbbbbbbbbbbbbbb''"
    unfolding k2 using k3 by (simp add: example_prims_def)
qed

section \<open>Address derivation\<close>

text \<open>
  Claim C2.  When the hash functions return 64-digit hexadecimal digests and the \<^verbatim>\<open>H256\<close>
  constructor keeps such a string, \<^verbatim>\<open>getAssetSchemeAddress()\<close> is the keyed hash of the
  transaction hash under the key \<open>00\<^sup>8 ff\<^sup>8\<close> with its first eight hexadecimal digits
  replaced by \<^verbatim>\<open>"5300"\<close> and the four digits of the big-endian 16-bit shard id, and
  \<^verbatim>\<open>getAssetAddress()\<close> is the keyed hash under the all-zero key with its first eight
  digits replaced by \<^verbatim>\<open>"4100"\<close> and the same four digits; the other 56 digits are those
  of the keyed hash.  The two addresses of one transaction differ, and a repeated call
  on the receiver returns the same address.
\<close>

theorem address_derivation:
  assumes "H256_contract P" and "blake_contract P"
  shows "\<exists>h. hash P tx = Inr h \<and>
     getAssetSchemeAddress P tx =
       Inr (H256 (''5300'' @ spec_shard_prefix (nat (shardId tx mod 65536)) @
              drop 8 (blake256WithKey P (DataString (h256_value h))
                        (replicate 8 0x00 @ replicate 8 0xff)))) \<and>
     getAssetAddress P tx =
       Inr (H256 (''4100'' @ spec_shard_prefix (nat (shardId tx mod 65536)) @
              drop 8 (blake256WithKey P (DataString (h256_value h)) (replicate 16 0x00)))) \<and>
     length (''5300'' @ spec_shard_prefix (nat (shardId tx mod 65536))) = 8 \<and>
     length (''4100'' @ spec_shard_prefix (nat (shardId tx mod 65536))) = 8 \<and>
     getAssetSchemeAddress P tx \<noteq> getAssetAddress P tx \<and>
     fst (call P GetAssetSchemeAddress (snd (call P GetAssetSchemeAddress tx))) =
       fst (call P GetAssetSchemeAddress tx) \<and>
     fst (call P GetAssetAddress (snd (call P GetAssetAddress tx))) =
       fst (call P GetAssetAddress tx)"
proof -
  have k1: "scheme_key = replicate 8 0x00 @ replicate 8 0xff"
    by (simp add: scheme_key_def numeral_eq_Suc)
  have k2: "asset_key = replicate 16 0x00"
    by (simp add: asset_key_def numeral_eq_Suc)
  show ?thesis
    unfolding hash_digest [OF assms] getAssetSchemeAddress_digest [OF assms]
      getAssetAddress_digest [OF assms] convertU16toHex_spec k1 [symmetric] k2 [symmetric]
    by (simp add: spec_shard_prefix_def)
qed

theorem address_derivation_witness:
  "H256_contract example_prims \<and> blake_contract example_prims \<and>
   getAssetSchemeAddress example_prims example_tx =
     Inr (H256 ''53000102dddddddddddddddddddddddddddddddddddddddddddddddddddddddd'') \<and>
   getAssetAddress example_prims example_tx =
     Inr (H256 ''41000102bbbbbbbbbbbbbbbbbbbbbbbbbbbbbbbbbbbbbbbbbbbbbbbbbbbbbbbb'')"
proof -
  have p: "spec_shard_prefix (nat (shardId example_tx mod 65536)) = ''0102''"
    by (simp add: spec_shard_prefix_def example_tx_def hexDigit_def)
  from address_derivation [OF example_H256_contract example_blake_contract, of example_tx]
  have "getAssetSchemeAddress example_prims example_tx =
     Inr (H256 ''53000102dddddddddddddddddddddddddddddddddddddddddddddddddddddddd'') \<and>
   getAssetAddress example_prims example_tx =
     Inr (H256 ''41000102bbbbbbbbbbbbbbbbbbbbbbbbbbbbbbbbbbbbbbbbbbbbbbbbbbbbbbbb'')"
    unfolding p example_keyed_digest by auto
  then show ?thesis
    using example_H256_contract example_blake_contract by blast
qed

text \<open>
  Claim C10.  For every integer shard id, \<^verbatim>\<open>convertU16toHex\<close> yields the four
  hexadecimal digits of the shard id modulo \<open>2\<^sup>1\<^sup>6\<close>, most significant digit first, so
  it depends on the low 16 bits only; no shard id is rejected, and both addresses carry
  these four digits at positions 4 to 7.
\<close>

theorem shard_prefix_low_16_bits:
  "convertU16toHex sid = spec_shard_prefix (nat (sid mod 2 ^ 16)) \<and>
   convertU16toHex sid = convertU16toHex (sid mod 2 ^ 16) \<and>
   (H256_contract P \<and> blake_contract P \<and> shardId tx = sid \<longrightarrow>
     (\<exists>a b. getAssetSchemeAddress P tx = Inr (H256 a) \<and> take 4 (drop 4 a) = convertU16toHex sid \<and>
            getAssetAddress P tx = Inr (H256 b) \<and> take 4 (drop 4 b) = convertU16toHex sid))"
proof -
  have len: "length (convertU16toHex sid) = 4"
    using convertU16toHex_hex [of sid] by (simp add: hex_string_def)
  have "convertU16toHex sid = spec_shard_prefix (nat (sid mod 2 ^ 16))"
    by (simp add: convertU16toHex_spec)
  moreover have "convertU16toHex sid = convertU16toHex (sid mod 2 ^ 16)"
    by (simp add: convertU16toHex_spec)
  moreover have "H256_contract P \<and> blake_contract P \<and> shardId tx = sid \<longrightarrow>
     (\<exists>a b. getAssetSchemeAddress P tx = Inr (H256 a) \<and> take 4 (drop 4 a) = convertU16toHex sid \<and>
            getAssetAddress P tx = Inr (H256 b) \<and> take 4 (drop 4 b) = convertU16toHex sid)"
    using len by (auto simp: getAssetSchemeAddress_digest getAssetAddress_digest)
  ultimately show ?thesis by blast
qed

theorem shard_prefix_low_16_bits_witness:
  "convertU16toHex 65794 = ''0102'' \<and> convertU16toHex (- 1) = ''ffff'' \<and>
   H256_contract example_prims \<and> blake_contract example_prims \<and> shardId example_tx = 258 \<and>
   (\<exists>a b. getAssetSchemeAddress example_prims example_tx = Inr (H256 a) \<and>
          take 4 (drop 4 a) = convertU16toHex 258 \<and>
          getAssetAddress example_prims example_tx = Inr (H256 b) \<and>
          take 4 (drop 4 b) = convertU16toHex 258)"
proof -
  have s: "shardId example_tx = 258" by (simp add: example_tx_def)
  have a: "convertU16toHex 65794 = ''0102''"
    using shard_prefix_low_16_bits [of 65794 example_prims example_tx]
    by (simp add: spec_shard_prefix_def hexDigit_def)
  have b: "convertU16toHex (- 1) = ''ffff''"
    using shard_prefix_low_16_bits [of "- 1" example_prims example_tx]
    by (simp add: spec_shard_prefix_def hexDigit_def)
  from shard_prefix_low_16_bits [of 258 example_prims example_tx]
  show ?thesis
    using a b s example_H256_contract example_blake_contract by blast
qed

section \<open>Canonical encoding\<close>

text \<open>
  Claim C5.  \<^verbatim>\<open>toEncodeObject()\<close> is the list of ten elements: the number 6, the network
  id, the shard id, the metadata, the approver and the administrator each as the list of
  the string of the address when there is one and as the empty list otherwise, the list
  of the encode objects of the inputs, the lock script hash of the output, its
  parameters, and its amount as the list of no or one element.  An absent address or
  amount is the empty list, a present one a list of one element.
\<close>

theorem toEncodeObject_layout:
  "toEncodeObject P tx =
     EList
      [ENumber 6,
       EString (networkId tx),
       ENumber (shardId tx),
       EString (metadata tx),
       EList (map (\<lambda>a. EString (PlatformAddress_toString P a)) (optional_list (approver tx))),
       EList (map (\<lambda>a. EString (PlatformAddress_toString P a)) (optional_list (administrator tx))),
       EList (map (AssetTransferInput_toEncodeObject P) (inputs tx)),
       H160_toEncodeObject P (mint_lockScriptHash (output tx)),
       EList (map EBuffer (mint_parameters (output tx))),
       EList (map (U64_toEncodeObject P) (optional_list (mint_amount (output tx))))] \<and>
   length (optional_list (approver tx)) \<le> 1 \<and>
   length (optional_list (administrator tx)) \<le> 1 \<and>
   length (optional_list (mint_amount (output tx))) \<le> 1 \<and>
   (optional_list (approver tx) = [] \<longleftrightarrow> approver tx = None) \<and>
   (optional_list (administrator tx) = [] \<longleftrightarrow> administrator tx = None) \<and>
   (optional_list (mint_amount (output tx)) = [] \<longleftrightarrow> mint_amount (output tx) = None)"
  by (simp add: toEncodeObject_def optional_list_def split: option.split)

theorem toEncodeObject_layout_witness:
  "toEncodeObject example_prims example_tx =
     EList
      [ENumber 6, EString ''tc'', ENumber 258, EString ''composed'',
       EList [],
       EList [EString ''tccqzn9jjm3j6qg69smd7cn0eup4w7z2yu9my9a2k78''],
       EList [EList [EBuffer [1, 2], EBuffer [3]], EList [EBuffer [1, 2], EBuffer [3]]],
       EString ''0x3333333333333333333333333333333333333333'',
       EList [EBuffer [4]],
       EList [ENumber 100]]"
  using toEncodeObject_layout [of example_prims example_tx]
  by (simp add: example_prims_def example_tx_def example_input_def example_output_def
      optional_list_def)

section \<open>The partial hash\<close>

lemma rebuilt_eq:
  "new_AssetComposeTransaction (networkId tx) (shardId tx) (metadata tx) (approver tx)
     (administrator tx) ins out = tx\<lparr>inputs := ins, output := out\<rparr>"
  by (cases tx) (simp add: new_AssetComposeTransaction_def split: option.split)

lemma hashWithoutScript_stages:
  "hashWithoutScript P tx params =
     bind_result (hws_inputs tx (params_tag params) (params_index params)) (\<lambda>ins.
     bind_result (hws_output P tx (params_tag params)) (\<lambda>out.
       spec_partial_hash P (tx\<lparr>inputs := ins, output := out\<rparr>) (params_tag params)))"
  by (simp add: hashWithoutScript_def spec_partial_hash_def rebuilt_eq rlpBytes_def Let_def)

lemma params_explicit [simp]:
  "params_tag (Some \<lparr> param_tag = Some tag, param_index = idx \<rparr>) = tag"
  "params_index (Some \<lparr> param_tag = Some tag, param_index = idx \<rparr>) = idx"
  by (simp_all add: params_tag_def params_index_def)


lemma example_inputs: "inputs example_tx = [example_input 30, example_input 70]"
  by (simp add: example_tx_def)

lemma hex_digits_decode:
  "list_all (\<lambda>d. hex_value (hexDigit d) = Some d) [0..<16]"
  by code_simp

lemma hex_chars_encode:
  "list_all (\<lambda>c. \<exists>d \<in> set [0..<16]. hexDigit d = c) ''0123456789abcdef''"
  by code_simp

lemma hex_value_digit:
  assumes "is_hex_digit c"
  obtains d where "d < 16" and "hex_value c = Some d" and "hexDigit d = c"
proof -
  from assms hex_chars_encode obtain d where d: "d \<in> set [0..<16]" "hexDigit d = c"
    unfolding is_hex_digit_def list_all_iff by blast
  with hex_digits_decode have "hex_value (hexDigit d) = Some d"
    unfolding list_all_iff by blast
  with d that show ?thesis by auto
qed

lemma byte_of_digits:
  assumes "x < 16" and "y < 16"
  shows "unat (word_of_nat (16 * x + y) :: 8 word) div 16 = x"
    and "unat (word_of_nat (16 * x + y) :: 8 word) mod 16 = y"
proof -
  from assms have "16 * x + y < 256" by simp
  then have u: "unat (word_of_nat (16 * x + y) :: 8 word) = 16 * x + y"
    unfolding unat_of_nat by simp
  from assms show "unat (word_of_nat (16 * x + y) :: 8 word) div 16 = x"
    unfolding u by simp
  from assms show "unat (word_of_nat (16 * x + y) :: 8 word) mod 16 = y"
    unfolding u by simp
qed

lemma Buffer_from_hex_digest:
  "list_all is_hex_digit s \<Longrightarrow> even (length s) \<Longrightarrow>
     spec_hex_of_bytes (Buffer_from_hex s) = s \<and> 2 * length (Buffer_from_hex s) = length s"
proof (induction s rule: Buffer_from_hex.induct)
  case (1 a b rest)
  from "1.prems" have ha: "is_hex_digit a" and hb: "is_hex_digit b"
    and r: "list_all is_hex_digit rest" "even (length rest)"
    by simp_all
  from ha obtain x where x: "x < 16" "hex_value a = Some x" "hexDigit x = a"
    by (rule hex_value_digit)
  from hb obtain y where y: "y < 16" "hex_value b = Some y" "hexDigit y = b"
    by (rule hex_value_digit)
  from "1.IH" [OF refl x(2) y(2) r]
  have ih: "spec_hex_of_bytes (Buffer_from_hex rest) = rest"
    "2 * length (Buffer_from_hex rest) = length rest"
    by simp_all
  show ?case
    using ih x y byte_of_digits [OF x(1) y(1)]
    by (simp add: spec_hex_of_bytes_def)
qed (simp_all add: spec_hex_of_bytes_def)

lemma rebuilt_record:
  "tx\<lparr>inputs := ins, output := out\<rparr> =
     \<lparr> networkId = networkId tx, shardId = shardId tx, metadata = metadata tx,
       approver = approver tx, administrator = administrator tx,
       inputs = ins, output = out \<rparr>"
  by (cases tx) simp

lemma digest_prims_simps:
  "blake128 digest_prims = (\<lambda>b.
         spec_hex_of_bytes [case b of [] \<Rightarrow> 0 | x # _ \<Rightarrow> x] @ ''000000000000000000000000000000'')"
  "blake256WithKey digest_prims = (\<lambda>d k.
         spec_hex_of_bytes
           [case k of [] \<Rightarrow> 0 | x # _ \<Rightarrow> x,
            case d of DataBuffer e \<Rightarrow> word_of_nat (length e) | DataString s \<Rightarrow> 0,
            case d of DataBuffer e \<Rightarrow> foldr (+) e 0 | DataString s \<Rightarrow> 0] @
         ''0000000000000000000000000000000000000000000000000000000000'')"
  "RLP_encode digest_prims = example_encode"
  "AssetTransferInput_toEncodeObject digest_prims = (\<lambda>i.
         EList [ENumber (int (amount (prevOut i))), EBuffer (lockScript i),
                EBuffer (unlockScript i)])"
  "encodeSignatureTag digest_prims = (\<lambda>t.
         [(if tag_input t = InputAll then 1 else 0) + (if tag_output t = OutputAll then 2 else 0)])"
  "H160_new digest_prims = (\<lambda>s. if hex_string 40 s then Inr (H160 s) else Inl InvalidFieldValue)"
  "H256_new digest_prims = (\<lambda>s. if hex_string 64 s then Inr (H256 s) else Inl InvalidFieldValue)"
  "H160_toEncodeObject digest_prims = (\<lambda>h. EString (''0x'' @ h160_value h))"
  "U64_toEncodeObject digest_prims = (\<lambda>a. ENumber (int a))"
  "PlatformAddress_toString digest_prims = address_value"
  by (simp_all add: digest_prims_def example_prims_def)

lemma example_tx_fields:
  "networkId example_tx = ''tc''" "shardId example_tx = 258" "metadata example_tx = ''composed''"
  "approver example_tx = None"
  "administrator example_tx = Some (PlatformAddress ''tccqzn9jjm3j6qg69smd7cn0eup4w7z2yu9my9a2k78'')"
  "inputs example_tx = [example_input 30, example_input 70]"
  "output example_tx = example_output"
  by (simp_all add: example_tx_def)

lemmas digest_eval =
  digest_prims_simps example_tx_fields example_input_def example_output_def example_outpoint_def
  toEncodeObject_def spec_hex_of_bytes_def hexDigit_def hex_value_def hex_string_def
  is_hex_digit_def

lemma digest_zero_hash:
  "H160_new digest_prims (replicate 40 CHR ''0'') =
      Inr (H160 ''0000000000000000000000000000000000000000'')"
proof -
  have "replicate 40 CHR ''0'' = ''0000000000000000000000000000000000000000''"
    by (simp add: numeral_eq_Suc)
  then show ?thesis
    by (simp add: digest_prims_simps hex_string_def is_hex_digit_def)
qed

text \<open>
  Claim C1.  For every accepted tag \<^verbatim>\<open>hashWithoutScript\<close> is
  \<^verbatim>\<open>new H256(blake256WithKey(e, k))\<close>, where \<open>e\<close> is the RLP encoding of the compose
  transaction with the scalar fields of the receiver and the transformed inputs and
  output, and \<open>k\<close> is the buffer of \<^verbatim>\<open>blake128(encodeSignatureTag(tag))\<close> for the tag of
  the caller:
  \<^item> with \<^verbatim>\<open>input: "all"\<close>, whatever the index, the inputs are all inputs of the receiver,
    each with both scripts empty;
  \<^item> with \<^verbatim>\<open>input: "single"\<close> and an index inside the inputs, they are the one input at
    that index with both scripts empty;
  \<^item> with \<^verbatim>\<open>output: "all"\<close> the output is that of the receiver, with the empty array it is
    the placeholder of the \<^verbatim>\<open>H160\<close> of forty zero digits, no parameters and no amount;
  \<^item> without parameters, or without a tag in them, the tag is
    \<^verbatim>\<open>{input: "all", output: "all"}\<close>;
  \<^item> a call that returns a hash had such a tag and index;
  \<^item> when the 128-bit digest is 32 hexadecimal digits, \<open>k\<close> is the 16 bytes they denote.
\<close>

theorem hashWithoutScript_keyed_hash:
  fixes P :: prims and tx :: AssetComposeTransaction
  defines "stripped \<equiv> \<lambda>i. \<lparr> prevOut = prevOut i, lockScript = [], unlockScript = [] \<rparr>"
  defines "placeholder \<equiv> \<lambda>h.
      \<lparr> mint_lockScriptHash = h, mint_parameters = [], mint_amount = None \<rparr>"
  defines "key \<equiv> \<lambda>tag. Buffer_from_hex (blake128 P (encodeSignatureTag P tag))"
  defines "keyed \<equiv> \<lambda>ins out tag.
      H256_new P
        (blake256WithKey P
           (DataBuffer (RLP_encode P (toEncodeObject P
              \<lparr> networkId = networkId tx, shardId = shardId tx, metadata = metadata tx,
                approver = approver tx, administrator = administrator tx,
                inputs = ins, output = out \<rparr>)))
           (key tag))"
  shows
   "(\<forall>idx. hashWithoutScript P tx
        (Some \<lparr> param_tag = Some (SignatureTag InputAll OutputAll), param_index = idx \<rparr>) =
        keyed (map stripped (inputs tx)) (output tx) (SignatureTag InputAll OutputAll)) \<and>
    (\<forall>idx h. H160_new P (replicate 40 CHR ''0'') = Inr h \<longrightarrow>
       hashWithoutScript P tx
        (Some \<lparr> param_tag = Some (SignatureTag InputAll (OutputArray [])), param_index = idx \<rparr>) =
        keyed (map stripped (inputs tx)) (placeholder h) (SignatureTag InputAll (OutputArray []))) \<and>
    (\<forall>i. 0 \<le> i \<and> i < int (length (inputs tx)) \<longrightarrow>
       hashWithoutScript P tx
        (Some \<lparr> param_tag = Some (SignatureTag InputSingle OutputAll), param_index = Some i \<rparr>) =
        keyed [stripped (inputs tx ! nat i)] (output tx) (SignatureTag InputSingle OutputAll)) \<and>
    (\<forall>i h. 0 \<le> i \<and> i < int (length (inputs tx)) \<and>
         H160_new P (replicate 40 CHR ''0'') = Inr h \<longrightarrow>
       hashWithoutScript P tx
        (Some \<lparr> param_tag = Some (SignatureTag InputSingle (OutputArray [])),
               param_index = Some i \<rparr>) =
        keyed [stripped (inputs tx ! nat i)] (placeholder h)
          (SignatureTag InputSingle (OutputArray []))) \<and>
    hashWithoutScript P tx None =
      keyed (map stripped (inputs tx)) (output tx) (SignatureTag InputAll OutputAll) \<and>
    (\<forall>idx. hashWithoutScript P tx (Some \<lparr> param_tag = None, param_index = idx \<rparr>) =
       keyed (map stripped (inputs tx)) (output tx) (SignatureTag InputAll OutputAll)) \<and>
    (\<forall>tag idx h.
       hashWithoutScript P tx (Some \<lparr> param_tag = Some tag, param_index = idx \<rparr>) = Inr h \<longrightarrow>
       (tag_input tag = InputAll \<or>
        tag_input tag = InputSingle \<and>
        (\<exists>i. idx = Some i \<and> 0 \<le> i \<and> i < int (length (inputs tx)))) \<and>
       (tag_output tag = OutputAll \<or> tag_output tag = OutputArray [])) \<and>
    (\<forall>tag. hex_string 32 (blake128 P (encodeSignatureTag P tag)) \<longrightarrow>
       length (key tag) = 16 \<and>
       spec_hex_of_bytes (key tag) = blake128 P (encodeSignatureTag P tag))"
proof -
  have z: "zero_lockScriptHash = replicate 40 CHR ''0''"
    by (simp add: zero_lockScriptHash_def numeral_eq_Suc)
  have k: "spec_partial_hash P (tx\<lparr>inputs := ins, output := out\<rparr>) tag = keyed ins out tag"
    for ins out tag
    by (simp add: spec_partial_hash_def keyed_def key_def rebuilt_record Let_def)
  have s: "withoutScript = stripped"
    by (simp add: withoutScript_def stripped_def fun_eq_iff)
  have 1: "hashWithoutScript P tx
        (Some \<lparr> param_tag = Some (SignatureTag InputAll OutputAll), param_index = idx \<rparr>) =
        keyed (map stripped (inputs tx)) (output tx) (SignatureTag InputAll OutputAll)" for idx
    by (simp add: hashWithoutScript_stages hws_inputs_def hws_output_def bind_result_def k s)
  have 2: "H160_new P (replicate 40 CHR ''0'') = Inr h \<longrightarrow>
       hashWithoutScript P tx
        (Some \<lparr> param_tag = Some (SignatureTag InputAll (OutputArray [])), param_index = idx \<rparr>) =
        keyed (map stripped (inputs tx)) (placeholder h) (SignatureTag InputAll (OutputArray []))"
    for idx h
    by (simp add: hashWithoutScript_stages hws_inputs_def hws_output_def bind_result_def k s z
        placeholder_def)
  have 3: "0 \<le> i \<and> i < int (length (inputs tx)) \<longrightarrow>
       hashWithoutScript P tx
        (Some \<lparr> param_tag = Some (SignatureTag InputSingle OutputAll), param_index = Some i \<rparr>) =
        keyed [stripped (inputs tx ! nat i)] (output tx) (SignatureTag InputSingle OutputAll)" for i
    by (auto simp: hashWithoutScript_stages hws_inputs_def hws_output_def bind_result_def k s
        js_nth_def)
  have 4: "0 \<le> i \<and> i < int (length (inputs tx)) \<and>
         H160_new P (replicate 40 CHR ''0'') = Inr h \<longrightarrow>
       hashWithoutScript P tx
        (Some \<lparr> param_tag = Some (SignatureTag InputSingle (OutputArray [])),
               param_index = Some i \<rparr>) =
        keyed [stripped (inputs tx ! nat i)] (placeholder h)
          (SignatureTag InputSingle (OutputArray []))" for i h
    by (auto simp: hashWithoutScript_stages hws_inputs_def hws_output_def bind_result_def k s z
        js_nth_def placeholder_def)
  have 5: "hashWithoutScript P tx None =
      keyed (map stripped (inputs tx)) (output tx) (SignatureTag InputAll OutputAll)"
    by (simp add: hashWithoutScript_stages params_tag_def params_index_def default_tag_def
        hws_inputs_def hws_output_def bind_result_def k s)
  have 6: "hashWithoutScript P tx (Some \<lparr> param_tag = None, param_index = idx \<rparr>) =
       keyed (map stripped (inputs tx)) (output tx) (SignatureTag InputAll OutputAll)" for idx
    by (simp add: hashWithoutScript_stages params_tag_def params_index_def default_tag_def
        hws_inputs_def hws_output_def bind_result_def k s)
  have 7: "hashWithoutScript P tx (Some \<lparr> param_tag = Some tag, param_index = idx \<rparr>) = Inr h \<longrightarrow>
       (tag_input tag = InputAll \<or>
        tag_input tag = InputSingle \<and>
        (\<exists>i. idx = Some i \<and> 0 \<le> i \<and> i < int (length (inputs tx)))) \<and>
       (tag_output tag = OutputAll \<or> tag_output tag = OutputArray [])" for tag idx h
    by (auto simp: hashWithoutScript_stages hws_inputs_def hws_output_def bind_result_def
        js_nth_def split: if_splits option.splits sum.splits)
  have 8: "hex_string 32 (blake128 P (encodeSignatureTag P tag)) \<longrightarrow>
       length (key tag) = 16 \<and>
       spec_hex_of_bytes (key tag) = blake128 P (encodeSignatureTag P tag)" for tag
    using Buffer_from_hex_digest [of "blake128 P (encodeSignatureTag P tag)"]
    by (auto simp: hex_string_def key_def)
  from 1 2 3 4 5 6 7 8 show ?thesis by blast
qed

theorem hashWithoutScript_keyed_hash_witness:
  "hashWithoutScript digest_prims example_tx None =
     Inr (H256 ''0372e90000000000000000000000000000000000000000000000000000000000'') \<and>
   hashWithoutScript digest_prims example_tx
     (Some \<lparr> param_tag = Some (SignatureTag InputAll OutputAll), param_index = Some 7 \<rparr>) =
     Inr (H256 ''0372e90000000000000000000000000000000000000000000000000000000000'') \<and>
   H160_new digest_prims (replicate 40 CHR ''0'') =
     Inr (H160 ''0000000000000000000000000000000000000000'') \<and>
   hashWithoutScript digest_prims example_tx
     (Some \<lparr> param_tag = Some (SignatureTag InputAll (OutputArray [])), param_index = None \<rparr>) =
     Inr (H256 ''016f060000000000000000000000000000000000000000000000000000000000'') \<and>
   (0::int) \<le> 1 \<and> 1 < int (length (inputs example_tx)) \<and>
   hashWithoutScript digest_prims example_tx
     (Some \<lparr> param_tag = Some (SignatureTag InputSingle OutputAll), param_index = Some 0 \<rparr>) =
     Inr (H256 ''026e9f0000000000000000000000000000000000000000000000000000000000'') \<and>
   hashWithoutScript digest_prims example_tx
     (Some \<lparr> param_tag = Some (SignatureTag InputSingle OutputAll), param_index = Some 1 \<rparr>) =
     Inr (H256 ''026ec70000000000000000000000000000000000000000000000000000000000'') \<and>
   hashWithoutScript digest_prims example_tx
     (Some \<lparr> param_tag = Some (SignatureTag InputSingle (OutputArray [])), param_index = Some 1 \<rparr>) =
     Inr (H256 ''006be40000000000000000000000000000000000000000000000000000000000'') \<and>
   hex_string 32 (blake128 digest_prims
     (encodeSignatureTag digest_prims (SignatureTag InputSingle OutputAll))) \<and>
   spec_hex_of_bytes (Buffer_from_hex (blake128 digest_prims
     (encodeSignatureTag digest_prims (SignatureTag InputSingle OutputAll)))) =
     ''02000000000000000000000000000000''"
proof -
  note t = hashWithoutScript_keyed_hash [of digest_prims example_tx]
  note z = digest_zero_hash
  note c1 = t [THEN conjunct1]
  note c2 = t [THEN conjunct2, THEN conjunct1]
  note c3 = t [THEN conjunct2, THEN conjunct2, THEN conjunct1]
  note c4 = t [THEN conjunct2, THEN conjunct2, THEN conjunct2, THEN conjunct1]
  note c5 = t [THEN conjunct2, THEN conjunct2, THEN conjunct2, THEN conjunct2, THEN conjunct1]
  note c8 = t [THEN conjunct2, THEN conjunct2, THEN conjunct2, THEN conjunct2, THEN conjunct2,
    THEN conjunct2, THEN conjunct2]
  have 1: "hashWithoutScript digest_prims example_tx None =
     Inr (H256 ''0372e90000000000000000000000000000000000000000000000000000000000'')"
    using c5 by (simp add: digest_eval)
  have 2: "hashWithoutScript digest_prims example_tx
     (Some \<lparr> param_tag = Some (SignatureTag InputAll OutputAll), param_index = Some 7 \<rparr>) =
     Inr (H256 ''0372e90000000000000000000000000000000000000000000000000000000000'')"
    using c1 by (simp add: digest_eval)
  have 3: "hashWithoutScript digest_prims example_tx
     (Some \<lparr> param_tag = Some (SignatureTag InputAll (OutputArray [])), param_index = None \<rparr>) =
     Inr (H256 ''016f060000000000000000000000000000000000000000000000000000000000'')"
    using c2 z by (simp add: digest_eval)
  have 4: "hashWithoutScript digest_prims example_tx
     (Some \<lparr> param_tag = Some (SignatureTag InputSingle OutputAll), param_index = Some 0 \<rparr>) =
     Inr (H256 ''026e9f0000000000000000000000000000000000000000000000000000000000'')"
    using c3 by (simp add: digest_eval)
  have 5: "hashWithoutScript digest_prims example_tx
     (Some \<lparr> param_tag = Some (SignatureTag InputSingle OutputAll), param_index = Some 1 \<rparr>) =
     Inr (H256 ''026ec70000000000000000000000000000000000000000000000000000000000'')"
    using c3 by (simp add: digest_eval)
  have 6: "hashWithoutScript digest_prims example_tx
     (Some \<lparr> param_tag = Some (SignatureTag InputSingle (OutputArray [])), param_index = Some 1 \<rparr>) =
     Inr (H256 ''006be40000000000000000000000000000000000000000000000000000000000'')"
    using c4 z by (simp add: digest_eval)
  have 7: "hex_string 32 (blake128 digest_prims
     (encodeSignatureTag digest_prims (SignatureTag InputSingle OutputAll)))"
    by (simp add: digest_eval)
  with c8 have 8: "spec_hex_of_bytes (Buffer_from_hex (blake128 digest_prims
     (encodeSignatureTag digest_prims (SignatureTag InputSingle OutputAll)))) =
     blake128 digest_prims (encodeSignatureTag digest_prims (SignatureTag InputSingle OutputAll))"
    by blast
  have 9: "blake128 digest_prims (encodeSignatureTag digest_prims (SignatureTag InputSingle OutputAll)) =
     ''02000000000000000000000000000000''"
    by (simp add: digest_eval)
  have 10: "(0::int) \<le> 1 \<and> 1 < int (length (inputs example_tx))"
    by (simp add: example_tx_fields)
  show ?thesis
    unfolding 1 2 3 4 5 6 using z 7 8 9 10 by simp
qed

text \<open>
  Claim C3, as the code has it.  With \<^verbatim>\<open>tag.input = "single"\<close>: without an index the
  call raises \<open>MissingIndex\<close>; with an index outside the inputs (negative, or at least
  their number) the call fails with the \<open>TypeError\<close> of calling \<^verbatim>\<open>withoutScript\<close> on
  \<^verbatim>\<open>undefined\<close>; with an index inside, the inputs of the rebuilt transaction are exactly
  the one input at that index with both scripts empty.
\<close>

theorem hashWithoutScript_single:
  assumes "tag_input tag = InputSingle"
  shows "hashWithoutScript P tx (Some \<lparr> param_tag = Some tag, param_index = None \<rparr>) =
           Inl MissingIndex \<and>
         (\<forall>i. i < 0 \<or> int (length (inputs tx)) \<le> i \<longrightarrow>
            hashWithoutScript P tx (Some \<lparr> param_tag = Some tag, param_index = Some i \<rparr>) =
              Inl TypeError) \<and>
         (\<forall>i. 0 \<le> i \<and> i < int (length (inputs tx)) \<longrightarrow>
            hws_inputs tx tag (Some i) =
              Inr [\<lparr> prevOut = prevOut (inputs tx ! nat i), lockScript = [], unlockScript = [] \<rparr>] \<and>
            hashWithoutScript P tx (Some \<lparr> param_tag = Some tag, param_index = Some i \<rparr>) =
              bind_result (hws_output P tx tag) (\<lambda>out.
                spec_partial_hash P
                  (tx\<lparr>inputs :=
                        [\<lparr> prevOut = prevOut (inputs tx ! nat i), lockScript = [],
                           unlockScript = [] \<rparr>],
                      output := out\<rparr>) tag))"
  using assms
  by (auto simp: hashWithoutScript_stages hws_inputs_def js_nth_def bind_result_def
      withoutScript_def)

theorem hashWithoutScript_single_witness:
  "tag_input (SignatureTag InputSingle OutputAll) = InputSingle \<and>
   hashWithoutScript example_prims example_tx
     (Some \<lparr> param_tag = Some (SignatureTag InputSingle OutputAll), param_index = None \<rparr>) =
     Inl MissingIndex \<and>
   hashWithoutScript example_prims example_tx
     (Some \<lparr> param_tag = Some (SignatureTag InputSingle OutputAll), param_index = Some 2 \<rparr>) =
     Inl TypeError \<and>
   hashWithoutScript example_prims example_tx
     (Some \<lparr> param_tag = Some (SignatureTag InputSingle OutputAll), param_index = Some (- 1) \<rparr>) =
     Inl TypeError \<and>
   hws_inputs example_tx (SignatureTag InputSingle OutputAll) (Some 0) =
     Inr [\<lparr> prevOut = example_outpoint 30, lockScript = [], unlockScript = [] \<rparr>]"
proof -
  have t: "tag_input (SignatureTag InputSingle OutputAll) = InputSingle" by simp
  from hashWithoutScript_single [OF t, of example_prims example_tx] t show ?thesis
    by (simp add: example_inputs example_input_def)
qed

text \<open>An index past the last input does not raise \<open>MissingIndex\<close>.\<close>

theorem hashWithoutScript_out_of_range_counterexample:
  "tag_input (SignatureTag InputSingle OutputAll) = InputSingle \<and>
   int (length (inputs example_tx)) \<le> 2 \<and>
   hashWithoutScript example_prims example_tx
     (Some \<lparr> param_tag = Some (SignatureTag InputSingle OutputAll), param_index = Some 2 \<rparr>) \<noteq>
     Inl MissingIndex"
  by (simp add: hashWithoutScript_def hws_inputs_def js_nth_def bind_result_def example_inputs)



section \<open>The composed asset and the asset scheme\<close>

lemma example_hash:
  "hash example_prims tx =
     Inr (H256 ''aaaaaaaaaaaaaaaaaaaaaaaaaaaaaaaaaaaaaaaaaaaaaaaaaaaaaaaaaaaaaaaa'')"
  unfolding hash_digest [OF example_H256_contract example_blake_contract]
  by (simp add: example_prims_def)

text \<open>
  Claim C6, as the code has it.  With a \<^verbatim>\<open>null\<close> output amount \<^verbatim>\<open>getComposedAsset()\<close>
  raises \<open>UnsupportedOperation\<close> (\<^verbatim>\<open>"not implemented"\<close>).  With an output amount it
  returns the asset whose type is \<^verbatim>\<open>getAssetSchemeAddress()\<close>, whose transaction hash is
  \<^verbatim>\<open>hash()\<close>, whose output index is 0, whose lock script hash and parameters are those
  of the output and whose amount is the output amount; the amount of a returned asset is
  always the output amount, never a substitute.
\<close>

theorem getComposedAsset_result:
  "(mint_amount (output tx) = None \<longrightarrow> getComposedAsset P tx = Inl UnsupportedOperation) \<and>
   (\<forall>a address h.
      mint_amount (output tx) = Some a \<and> getAssetSchemeAddress P tx = Inr address \<and>
      hash P tx = Inr h \<longrightarrow>
      getComposedAsset P tx =
        Inr \<lparr> asset_assetType = address,
              asset_lockScriptHash = mint_lockScriptHash (output tx),
              asset_parameters = mint_parameters (output tx),
              asset_amount = a,
              asset_transactionHash = h,
              asset_transactionOutputIndex = 0 \<rparr>) \<and>
   (\<forall>asset. getComposedAsset P tx = Inr asset \<longrightarrow>
      mint_amount (output tx) = Some (asset_amount asset) \<and>
      getAssetSchemeAddress P tx = Inr (asset_assetType asset) \<and>
      hash P tx = Inr (asset_transactionHash asset) \<and>
      asset_transactionOutputIndex asset = 0)"
proof (intro conjI allI impI)
  assume "mint_amount (output tx) = None"
  then show "getComposedAsset P tx = Inl UnsupportedOperation"
    by (simp add: getComposedAsset_def)
next
  fix a address h
  assume "mint_amount (output tx) = Some a \<and> getAssetSchemeAddress P tx = Inr address \<and>
    hash P tx = Inr h"
  then show "getComposedAsset P tx =
        Inr \<lparr> asset_assetType = address,
              asset_lockScriptHash = mint_lockScriptHash (output tx),
              asset_parameters = mint_parameters (output tx),
              asset_amount = a,
              asset_transactionHash = h,
              asset_transactionOutputIndex = 0 \<rparr>"
    by (simp add: getComposedAsset_def bind_result_def)
next
  fix asset
  assume r: "getComposedAsset P tx = Inr asset"
  then obtain a where a: "mint_amount (output tx) = Some a"
    by (cases "mint_amount (output tx)") (simp_all add: getComposedAsset_def)
  from r a obtain address where s: "getAssetSchemeAddress P tx = Inr address"
    by (cases "getAssetSchemeAddress P tx") (simp_all add: getComposedAsset_def bind_result_def)
  from r a s obtain h where h: "hash P tx = Inr h"
    by (cases "hash P tx") (simp_all add: getComposedAsset_def bind_result_def)
  from r a s h have asset: "asset =
        \<lparr> asset_assetType = address,
          asset_lockScriptHash = mint_lockScriptHash (output tx),
          asset_parameters = mint_parameters (output tx),
          asset_amount = a,
          asset_transactionHash = h,
          asset_transactionOutputIndex = 0 \<rparr>"
    by (simp add: getComposedAsset_def bind_result_def)
  show "mint_amount (output tx) = Some (asset_amount asset)" by (simp add: a asset)
  show "getAssetSchemeAddress P tx = Inr (asset_assetType asset)" by (simp add: s asset)
  show "hash P tx = Inr (asset_transactionHash asset)" by (simp add: h asset)
  show "asset_transactionOutputIndex asset = 0" by (simp add: asset)
qed

theorem getComposedAsset_result_witness:
  "mint_amount (output example_null_tx) = None \<and>
   getComposedAsset example_prims example_null_tx = Inl UnsupportedOperation \<and>
   mint_amount (output example_tx) = Some 100 \<and>
   getComposedAsset example_prims example_tx =
     Inr \<lparr> asset_assetType =
             H256 ''53000102dddddddddddddddddddddddddddddddddddddddddddddddddddddddd'',
           asset_lockScriptHash = H160 ''3333333333333333333333333333333333333333'',
           asset_parameters = [[4]],
           asset_amount = 100,
           asset_transactionHash =
             H256 ''aaaaaaaaaaaaaaaaaaaaaaaaaaaaaaaaaaaaaaaaaaaaaaaaaaaaaaaaaaaaaaaa'',
           asset_transactionOutputIndex = 0 \<rparr>"
proof -
  have n: "mint_amount (output example_null_tx) = None"
    by (simp add: example_null_tx_def)
  have a: "mint_amount (output example_tx) = Some 100"
    by (simp add: example_tx_def example_output_def)
  have k: "scheme_key = replicate 8 0x00 @ replicate 8 0xff"
    by (simp add: scheme_key_def numeral_eq_Suc)
  have p: "convertU16toHex (shardId example_tx) = ''0102''"
    by (simp add: convertU16toHex_spec spec_shard_prefix_def example_tx_def hexDigit_def)
  have s: "getAssetSchemeAddress example_prims example_tx =
      Inr (H256 ''53000102dddddddddddddddddddddddddddddddddddddddddddddddddddddddd'')"
    unfolding getAssetSchemeAddress_digest [OF example_H256_contract example_blake_contract]
      p k example_keyed_digest
    by simp
  have 1: "getComposedAsset example_prims example_null_tx = Inl UnsupportedOperation"
    using getComposedAsset_result [of example_null_tx example_prims] n by blast
  have 2: "getComposedAsset example_prims example_tx =
        Inr \<lparr> asset_assetType =
                H256 ''53000102dddddddddddddddddddddddddddddddddddddddddddddddddddddddd'',
              asset_lockScriptHash = mint_lockScriptHash (output example_tx),
              asset_parameters = mint_parameters (output example_tx),
              asset_amount = 100,
              asset_transactionHash =
                H256 ''aaaaaaaaaaaaaaaaaaaaaaaaaaaaaaaaaaaaaaaaaaaaaaaaaaaaaaaaaaaaaaaa'',
              asset_transactionOutputIndex = 0 \<rparr>"
    using getComposedAsset_result [of example_tx example_prims] a s example_hash [of example_tx]
    by blast
  have o: "output example_tx = example_output" by (simp add: example_tx_def)
  show ?thesis
    unfolding 1 2 n a o by (simp add: example_output_def)
qed

text \<open>With a \<^verbatim>\<open>null\<close> output amount no asset is returned.\<close>

theorem getComposedAsset_null_amount_counterexample:
  "mint_amount (output example_null_tx) = None \<and>
   (\<forall>asset. getComposedAsset example_prims example_null_tx \<noteq> Inr asset)"
  by (simp add: getComposedAsset_def example_null_tx_def)

subsection \<open>The pool of the asset scheme\<close>

lemma example_rejects_undefined: "U64_plus_rejects_undefined example_prims"
  by (simp add: U64_plus_rejects_undefined_def example_prims_def)

text \<open>
  Claim C7 does not hold of the code.  For the first input of each asset type the
  accumulator has no entry, and \<^verbatim>\<open>reduce\<close> passes \<^verbatim>\<open>undefined\<close> to \<^verbatim>\<open>U64.plus\<close>.  When
  \<^verbatim>\<open>U64.plus\<close> rejects an undefined operand and the output amount is not \<^verbatim>\<open>null\<close>,
  \<^verbatim>\<open>getAssetScheme()\<close> raises the error of \<^verbatim>\<open>U64.plus(undefined, amount)\<close> on the first
  input, for every transaction with at least one input: it returns no pool.  Only without
  inputs does it return a scheme, whose pool is empty.
\<close>

theorem getAssetScheme_undefined_accumulator:
  assumes rejects: "U64_plus_rejects_undefined P"
    and amt: "mint_amount (output tx) = Some n"
  shows "(\<forall>i rest. inputs tx = i # rest \<longrightarrow>
            (\<exists>e. U64_plus P None (amount (prevOut i)) = Inl e \<and> getAssetScheme P tx = Inl e)) \<and>
         (inputs tx = [] \<longrightarrow>
            getAssetScheme P tx =
              Inr \<lparr> scheme_networkId = networkId tx, scheme_shardId = shardId tx,
                    scheme_metadata = metadata tx, scheme_amount = n,
                    scheme_approver = approver tx,
                    scheme_administrator = administrator tx,
                    scheme_pool = [] \<rparr>)"
proof (intro conjI allI impI)
  fix i rest
  assume inputs: "inputs tx = i # rest"
  from rejects obtain e where e: "U64_plus P None (amount (prevOut i)) = Inl e"
    unfolding U64_plus_rejects_undefined_def by blast
  then have "getAssetScheme P tx = Inl e"
    by (simp add: getAssetScheme_def amt inputs bind_result_def)
  with e show "\<exists>e. U64_plus P None (amount (prevOut i)) = Inl e \<and> getAssetScheme P tx = Inl e"
    by blast
next
  assume "inputs tx = []"
  then show "getAssetScheme P tx =
      Inr \<lparr> scheme_networkId = networkId tx, scheme_shardId = shardId tx,
            scheme_metadata = metadata tx, scheme_amount = n,
            scheme_approver = approver tx,
            scheme_administrator = administrator tx,
            scheme_pool = [] \<rparr>"
    by (simp add: getAssetScheme_def amt bind_result_def toPairs_def)
qed

theorem getAssetScheme_undefined_accumulator_witness:
  "U64_plus_rejects_undefined example_prims \<and>
   mint_amount (output example_tx) = Some 100 \<and>
   inputs example_tx = [example_input 30, example_input 70] \<and>
   assetType (prevOut (example_input 30)) = assetType (prevOut (example_input 70)) \<and>
   amount (prevOut (example_input 30)) = 30 \<and> amount (prevOut (example_input 70)) = 70 \<and>
   getAssetScheme example_prims example_tx = Inl InvalidFieldValue"
proof -
  have amt: "mint_amount (output example_tx) = Some 100"
    by (simp add: example_tx_def example_output_def)
  have same: "assetType (prevOut (example_input 30)) = assetType (prevOut (example_input 70)) \<and>
      amount (prevOut (example_input 30)) = 30 \<and> amount (prevOut (example_input 70)) = 70"
    by (simp add: example_input_def example_outpoint_def)
  from getAssetScheme_undefined_accumulator [OF example_rejects_undefined amt] example_inputs
  obtain e where e: "U64_plus example_prims None (amount (prevOut (example_input 30))) = Inl e"
    and g: "getAssetScheme example_prims example_tx = Inl e"
    by blast
  from e have "e = InvalidFieldValue"
    by (simp add: example_prims_def)
  with g example_rejects_undefined amt example_inputs same show ?thesis by simp
qed

section \<open>JSON round trip\<close>

lemma map_result_roundtrip:
  "(\<forall>x \<in> set xs. f (g x) = Inr x) \<Longrightarrow> map_result f (map g xs) = Inr xs"
  by (induction xs) (simp_all add: bind_result_def)

lemma ensure_address_roundtrip:
  assumes "\<forall>a. x = Some a \<longrightarrow> PlatformAddress_fromString P (PlatformAddress_toString P a) = Inr a"
  shows "ensure_address P (case x of None \<Rightarrow> None | Some a \<Rightarrow> Some (PlatformAddress_toString P a)) = Inr x"
  using assms by (cases x) (simp_all add: ensure_address_def bind_result_def)

lemma AssetOutPoint_roundtrip_drops:
  assumes "value_codecs_roundtrip P x"
  shows "AssetOutPoint_fromJSON P (AssetOutPoint_toJSON P x) =
           Inr (x\<lparr>lockScriptHash := None, parameters := None\<rparr>)"
  using assms
  by (cases x)
    (simp add: value_codecs_roundtrip_def AssetOutPoint_fromJSON_def AssetOutPoint_toJSON_def
      bind_result_def)

lemma fromJSON_toJSON:
  assumes "json_codecs_roundtrip P tx"
  shows "fromJSON P (toJSON P tx) = Inr tx"
proof -
  from assms have a: "ensure_address P
      (case approver tx of None \<Rightarrow> None | Some a \<Rightarrow> Some (PlatformAddress_toString P a)) =
      Inr (approver tx)"
    by (intro ensure_address_roundtrip) (simp add: json_codecs_roundtrip_def)
  from assms have b: "ensure_address P
      (case administrator tx of None \<Rightarrow> None | Some a \<Rightarrow> Some (PlatformAddress_toString P a)) =
      Inr (administrator tx)"
    by (intro ensure_address_roundtrip) (simp add: json_codecs_roundtrip_def)
  from assms have i: "map_result (AssetTransferInput_fromJSON P)
      (map (AssetTransferInput_toJSON P) (inputs tx)) = Inr (inputs tx)"
    by (intro map_result_roundtrip) (simp add: json_codecs_roundtrip_def)
  from assms have out:
    "AssetMintOutput_fromJSON P (AssetMintOutput_toJSON P (output tx)) = Inr (output tx)"
    by (simp add: json_codecs_roundtrip_def)
  have "new_AssetComposeTransaction (networkId tx) (shardId tx) (metadata tx) (approver tx)
     (administrator tx) (inputs tx) (output tx) = tx"
    by (simp add: rebuilt_eq)
  then show ?thesis
    by (simp add: fromJSON_def toJSON_def Let_def a b i out bind_result_def)
qed

lemma example_value_codecs: "value_codecs_roundtrip example_prims (example_outpoint 30)"
  by (simp add: value_codecs_roundtrip_def example_outpoint_def example_type_def example_prims_def
      hex_string_def is_hex_digit_def natToString16.simps example_hex_value_def hex_value_def
      hexDigit_def)

lemma example_locked_value_codecs: "value_codecs_roundtrip example_prims example_locked_outpoint"
  using example_value_codecs
  by (simp add: value_codecs_roundtrip_def example_locked_outpoint_def)

lemma example_json_codecs: "json_codecs_roundtrip example_prims example_tx"
  by (simp add: json_codecs_roundtrip_def example_tx_def example_prims_def example_input_json_def
      example_input_def example_outpoint_def example_output_def)

text \<open>
  Claim C8, as the code has it.  When the hashes and the amount of an out-point round-trip
  through their strings, \<^verbatim>\<open>AssetOutPoint.fromJSON(x.toJSON())\<close> is \<open>x\<close> without
  \<^verbatim>\<open>lockScriptHash\<close> and \<^verbatim>\<open>parameters\<close>, so it equals \<open>x\<close> exactly when \<open>x\<close> has
  neither.  When the addresses, the inputs and the output of a compose transaction
  round-trip through their own JSON codecs,
  \<^verbatim>\<open>AssetComposeTransaction.fromJSON(x.toJSON())\<close> is \<open>x\<close>.
\<close>

theorem json_roundtrip:
  "(value_codecs_roundtrip P x \<longrightarrow>
      AssetOutPoint_fromJSON P (AssetOutPoint_toJSON P x) =
        Inr (x\<lparr>lockScriptHash := None, parameters := None\<rparr>) \<and>
      (AssetOutPoint_fromJSON P (AssetOutPoint_toJSON P x) = Inr x \<longleftrightarrow>
         lockScriptHash x = None \<and> parameters x = None)) \<and>
   (json_codecs_roundtrip P tx \<longrightarrow> fromJSON P (toJSON P tx) = Inr tx)"
proof (intro conjI impI)
  assume v: "value_codecs_roundtrip P x"
  show "AssetOutPoint_fromJSON P (AssetOutPoint_toJSON P x) =
        Inr (x\<lparr>lockScriptHash := None, parameters := None\<rparr>)"
    by (rule AssetOutPoint_roundtrip_drops [OF v])
  show "AssetOutPoint_fromJSON P (AssetOutPoint_toJSON P x) = Inr x \<longleftrightarrow>
         lockScriptHash x = None \<and> parameters x = None"
    unfolding AssetOutPoint_roundtrip_drops [OF v] by (cases x) auto
next
  assume "json_codecs_roundtrip P tx"
  then show "fromJSON P (toJSON P tx) = Inr tx" by (rule fromJSON_toJSON)
qed

theorem json_roundtrip_witness:
  "value_codecs_roundtrip example_prims (example_outpoint 30) \<and>
   AssetOutPoint_fromJSON example_prims (AssetOutPoint_toJSON example_prims (example_outpoint 30)) =
     Inr (example_outpoint 30) \<and>
   json_codecs_roundtrip example_prims example_tx \<and>
   fromJSON example_prims (toJSON example_prims example_tx) = Inr example_tx"
proof -
  have "lockScriptHash (example_outpoint 30) = None \<and> parameters (example_outpoint 30) = None"
    by (simp add: example_outpoint_def)
  with json_roundtrip [of example_prims "example_outpoint 30" example_tx]
    example_value_codecs example_json_codecs
  show ?thesis by blast
qed

text \<open>An out-point with a lock script hash does not come back from its JSON form.\<close>

theorem AssetOutPoint_roundtrip_counterexample:
  "value_codecs_roundtrip example_prims example_locked_outpoint \<and>
   lockScriptHash example_locked_outpoint \<noteq> None \<and>
   AssetOutPoint_fromJSON example_prims (AssetOutPoint_toJSON example_prims example_locked_outpoint) \<noteq>
     Inr example_locked_outpoint"
proof -
  have "AssetOutPoint_fromJSON example_prims
      (AssetOutPoint_toJSON example_prims example_locked_outpoint) =
      Inr (example_locked_outpoint\<lparr>lockScriptHash := None, parameters := None\<rparr>)"
    by (rule AssetOutPoint_roundtrip_drops [OF example_locked_value_codecs])
  then show ?thesis
    using example_locked_value_codecs
    by (simp add: example_locked_outpoint_def example_outpoint_def)
qed

section \<open>What a call does to the receiver\<close>






end
